theory Spec2Isabelle
  imports Complex_Main
begin

section \<open>JavaScript values\<close>

text \<open>
  The Growth Worker is TypeScript running on Node. Its numbers are IEEE doubles; they are
  modelled here as reals, so every statement below is about the exact arithmetic the
  code spells out and says nothing about \<open>NaN\<close>, infinities or binary rounding error.
  A thrown exception (a rejected promise) is the \<open>Inl\<close> of a sum.
\<close>

datatype js_error = Error string | TypeError string | SyntaxError string

type_synonym 'a outcome = "js_error + 'a"

text \<open>\<open>Math.round\<close>: the nearest integer, a tie going towards \<open>+\<infinity>\<close>.\<close>

definition js_round :: "real \<Rightarrow> real" where
  "js_round x = of_int \<lfloor>x + 1 / 2\<rfloor>"

text \<open>
  \<open>String.prototype.toLowerCase\<close> on the ASCII letters (an Isabelle character is a byte;
  the service names of the templates are ASCII).
\<close>

definition lower_char :: "char \<Rightarrow> char" where
  "lower_char c =
     (case map_of (zip ''ABCDEFGHIJKLMNOPQRSTUVWXYZ'' ''abcdefghijklmnopqrstuvwxyz'') c of
        Some l \<Rightarrow> l
      | None \<Rightarrow> c)"

definition toLowerCase :: "string \<Rightarrow> string" where
  "toLowerCase s = map lower_char s"

text \<open>\<open>s.includes(k)\<close>: \<open>k\<close> occurs in \<open>s\<close> as a contiguous substring.\<close>

fun js_includes :: "string \<Rightarrow> string \<Rightarrow> bool" where
  "js_includes [] k = (k = [])"
| "js_includes (c # cs) k = (take (length k) (c # cs) = k \<or> js_includes cs k)"

section \<open>Market Estimate Interpolator (providers/keyword-estimates.ts)\<close>

text \<open>
  Modelled from the spec: the record types of \<open>types.ts\<close>, which is not among the
  sources (here \<open>KeywordData\<close>, the KeywordDatum of the specification); the fields are
  those of the object literals the providers build.
\<close>

datatype competition_tier = Low | Medium | High

record KeywordData =
  keyword :: string
  monthlySearches :: real
  avgCpc :: real
  competition :: competition_tier
  service :: string
  city :: "string option"

record ServiceEstimate =
  cpcRange :: "real \<times> real"
  volumeRange :: "real \<times> real"
  est_competition :: competition_tier
  est_keywords :: "string list"

text \<open>The template table, in the order of the object literal (\<open>Object.entries\<close> order).\<close>

definition SERVICE_ESTIMATES :: "(string \<times> ServiceEstimate) list" where
  "SERVICE_ESTIMATES =
    [(''exterior painting'',
        \<lparr>cpcRange = (12, 32), volumeRange = (400, 2400), est_competition = High,
         est_keywords = [''exterior painting'', ''exterior house painting'',
           ''exterior painter near me'', ''outside house painting'',
           ''home exterior painting'', ''house painting'']\<rparr>),
     (''interior painting'',
        \<lparr>cpcRange = (8, 22), volumeRange = (300, 1800), est_competition = Medium,
         est_keywords = [''interior painting'', ''interior house painting'',
           ''interior painter near me'', ''room painting'', ''indoor painting'',
           ''house painting interior'']\<rparr>),
     (''cabinet painting'',
        \<lparr>cpcRange = (6, 18), volumeRange = (120, 700), est_competition = Low,
         est_keywords = [''cabinet painting'', ''kitchen cabinet painting'',
           ''cabinet refinishing'', ''cabinet painter near me'',
           ''paint kitchen cabinets'']\<rparr>),
     (''commercial painting'',
        \<lparr>cpcRange = (10, 28), volumeRange = (80, 500), est_competition = Medium,
         est_keywords = [''commercial painting'', ''commercial painter'',
           ''office painting'', ''business painting'',
           ''commercial painting contractor'']\<rparr>),
     (''deck staining'',
        \<lparr>cpcRange = (5, 15), volumeRange = (100, 600), est_competition = Low,
         est_keywords = [''deck staining'', ''deck refinishing'', ''deck stain near me'',
           ''wood deck staining'', ''deck restoration'']\<rparr>)]"

definition MAX_COMPETITORS_SIGNAL :: real where "MAX_COMPETITORS_SIGNAL = 20"
definition MAX_AVG_REVIEWS_SIGNAL :: real where "MAX_AVG_REVIEWS_SIGNAL = 400"
definition COMPETITOR_COUNT_WEIGHT :: real where "COMPETITOR_COUNT_WEIGHT = 35 / 100"
definition REVIEW_DENSITY_WEIGHT :: real where "REVIEW_DENSITY_WEIGHT = 65 / 100"

definition calculateMarketFactor :: "real \<Rightarrow> real \<Rightarrow> real" where
  "calculateMarketFactor competitorCount avgReviewCount =
     (let countFactor = min (competitorCount / MAX_COMPETITORS_SIGNAL) 1;
          reviewFactor = min (avgReviewCount / MAX_AVG_REVIEWS_SIGNAL) 1
      in js_round ((countFactor * COMPETITOR_COUNT_WEIGHT
                    + reviewFactor * REVIEW_DENSITY_WEIGHT) * 100) / 100)"

definition interpolate :: "real \<times> real \<Rightarrow> real \<Rightarrow> real" where
  "interpolate rng factor =
     js_round ((fst rng + (snd rng - fst rng) * factor) * 100) / 100"

text \<open>The provider object: its only field is the private \<open>marketFactor\<close>.\<close>

record EstimateMarketDataProvider =
  marketFactor :: real

definition new_EstimateMarketDataProvider :: EstimateMarketDataProvider where
  "new_EstimateMarketDataProvider = \<lparr>marketFactor = 1 / 2\<rparr>"

definition setMarketFactor ::
  "EstimateMarketDataProvider \<Rightarrow> real \<Rightarrow> EstimateMarketDataProvider" where
  "setMarketFactor this factor = this\<lparr>marketFactor := max 0 (min 1 factor)\<rparr>"

text \<open>
  \<open>findServiceEstimates\<close> reads \<open>SERVICE_ESTIMATES[normalizedService]\<close> first. The table is
  a plain object, so the read also finds what the object inherits from
  \<open>Object.prototype\<close>; of those property names only \<open>constructor\<close> and \<open>__proto__\<close> are
  free of upper-case letters and can equal a lower-cased service name. Such a value is
  truthy and is returned as if it were a template.
\<close>

datatype estimate_lookup = Estimates ServiceEstimate | PrototypeValue | NoEstimates

definition inherited_keys :: "string list" where
  "inherited_keys = [''constructor'', ''__proto__'']"

definition findServiceEstimates :: "string \<Rightarrow> estimate_lookup" where
  "findServiceEstimates normalizedService =
     (case map_of SERVICE_ESTIMATES normalizedService of
        Some e \<Rightarrow> Estimates e
      | None \<Rightarrow>
          if normalizedService \<in> set inherited_keys then PrototypeValue
          else (case find (\<lambda>(key, e). js_includes normalizedService key
                                       \<or> js_includes key normalizedService)
                          SERVICE_ESTIMATES of
                  Some (key, e) \<Rightarrow> Estimates e
                | None \<Rightarrow> NoEstimates))"

definition CITY_CPC_UPLIFT :: real where "CITY_CPC_UPLIFT = 115 / 100"
definition CITY_VOLUME_BASE :: real where "CITY_VOLUME_BASE = 20 / 100"
definition CITY_VOLUME_FACTOR :: real where "CITY_VOLUME_FACTOR = 15 / 100"
definition CITY_VOLUME_FRACTION :: real where "CITY_VOLUME_FRACTION = 25 / 100"
definition GENERIC_CPC_RANGE :: "real \<times> real" where "GENERIC_CPC_RANGE = (8, 20)"
definition GENERIC_VOLUME_RANGE :: "real \<times> real" where "GENERIC_VOLUME_RANGE = (80, 400)"

text \<open>
  The body of the loop over one template keyword: the base keyword, then one variant per
  city. \<open>cityFraction\<close> is the fraction of the base volume a city variant gets.
\<close>

definition keyword_entries ::
  "string \<Rightarrow> competition_tier \<Rightarrow> real \<Rightarrow> real \<Rightarrow> real \<Rightarrow> string list \<Rightarrow> string
   \<Rightarrow> KeywordData list" where
  "keyword_entries svc tier baseCpc baseVolume cityFraction cities kw =
     \<lparr>keyword = kw, monthlySearches = baseVolume, avgCpc = baseCpc,
      competition = tier, service = svc, city = None\<rparr>
     # map (\<lambda>c. \<lparr>keyword = kw @ '' '' @ c,
                  monthlySearches = js_round (baseVolume * cityFraction),
                  avgCpc = js_round (baseCpc * CITY_CPC_UPLIFT * 100) / 100,
                  competition = tier, service = svc, city = Some c\<rparr>) cities"

definition generateGenericEstimates ::
  "EstimateMarketDataProvider \<Rightarrow> string \<Rightarrow> string list \<Rightarrow> KeywordData list" where
  "generateGenericEstimates this svc cities =
     (let factor = marketFactor this;
          baseCpc = interpolate GENERIC_CPC_RANGE factor;
          baseVolume = js_round (interpolate GENERIC_VOLUME_RANGE factor);
          baseKeywords = [toLowerCase svc, toLowerCase svc @ '' near me'',
                          toLowerCase svc @ '' contractor'', toLowerCase svc @ '' services'']
      in concat (map (keyword_entries svc Medium baseCpc baseVolume
                        CITY_VOLUME_FRACTION cities) baseKeywords))"

text \<open>One turn of the loop over the services: the entries it pushes, or the exception.\<close>

definition service_entries ::
  "EstimateMarketDataProvider \<Rightarrow> string list \<Rightarrow> string \<Rightarrow> KeywordData list outcome" where
  "service_entries this cities svc =
     (let factor = marketFactor this in
      case findServiceEstimates (toLowerCase svc) of
        NoEstimates \<Rightarrow> Inr (generateGenericEstimates this svc cities)
      | PrototypeValue \<Rightarrow>
          Inl (TypeError ''Cannot read properties of undefined (reading 0)'')
      | Estimates estimates \<Rightarrow>
          (let baseCpc = interpolate (cpcRange estimates) factor;
               baseVolume = js_round (interpolate (volumeRange estimates) factor);
               cityFraction = CITY_VOLUME_BASE + factor * CITY_VOLUME_FACTOR
           in Inr (concat (map (keyword_entries svc (est_competition estimates) baseCpc
                                  baseVolume cityFraction cities)
                               (est_keywords estimates)))))"

fun collect_entries ::
  "('a \<Rightarrow> 'b list outcome) \<Rightarrow> 'a list \<Rightarrow> 'b list outcome" where
  "collect_entries f [] = Inr []"
| "collect_entries f (x # xs) =
     (case f x of
        Inl e \<Rightarrow> Inl e
      | Inr ys \<Rightarrow> (case collect_entries f xs of
                    Inl e \<Rightarrow> Inl e
                  | Inr rest \<Rightarrow> Inr (ys @ rest)))"

definition getKeywordData ::
  "EstimateMarketDataProvider \<Rightarrow> string list \<Rightarrow> string list \<Rightarrow> string
   \<Rightarrow> KeywordData list outcome" where
  "getKeywordData this services cities state =
     collect_entries (service_entries this cities) services"

section \<open>JSON values and the reasoning-engine adapter (providers/openai-llm.ts)\<close>

text \<open>
  What \<open>JSON.parse\<close> returns. An object is its list of own properties (keys distinct);
  \<open>undefined\<close> is the \<open>None\<close> of an option.
\<close>

datatype json =
    JNull
  | JBool bool
  | JNum real
  | JStr string
  | JArr "json list"
  | JObj "(string \<times> json) list"

text \<open>
  Reading a property of a value that is not \<open>null\<close>. None of the property names the code
  reads is inherited by a parsed JSON value, so only an object's own properties answer.
\<close>

definition field :: "json \<Rightarrow> string \<Rightarrow> json option" where
  "field j k = (case j of JObj kvs \<Rightarrow> map_of kvs k | _ \<Rightarrow> None)"

fun truthy :: "json \<Rightarrow> bool" where
  "truthy JNull = False"
| "truthy (JBool b) = b"
| "truthy (JNum n) = (n \<noteq> 0)"
| "truthy (JStr s) = (s \<noteq> [])"
| "truthy (JArr xs) = True"
| "truthy (JObj kvs) = True"

text \<open>\<open>x || d\<close> on a possibly undefined JSON value.\<close>

definition or_default :: "json option \<Rightarrow> json \<Rightarrow> json" where
  "or_default x d = (case x of None \<Rightarrow> d | Some j \<Rightarrow> if truthy j then j else d)"

text \<open>
  Modelled from the spec: the records of \<open>types.ts\<close> (not among the sources) that the
  pipeline only counts or passes on: the CompetitorRecord, the search snapshot and the
  HistoricalSnapshot of the specification, with the scalar fields the providers fill in.
\<close>

record PlacesCompetitor =
  placeId :: string
  pc_name :: string
  pc_rating :: "real option"
  pc_reviewCount :: "real option"

record SerpResult =
  serp_query :: string
  serp_ads :: "string list"

record CrmSnapshot =
  totalQuotes :: nat
  wonQuotes :: nat
  totalRevenue :: real
  avgDealSize :: real

record LlmMarketAnalysisInput =
  in_services :: "string list"
  in_zipCode :: string
  in_keywords :: "KeywordData list"
  in_competitors :: "PlacesCompetitor list"
  in_serpResults :: "SerpResult list"
  in_crmData :: "CrmSnapshot option"
  in_websiteUrl :: "string option"
  in_websiteContent :: "string option"

record LlmPlanInput =
  pin_summary :: json
  pin_serviceOpportunities :: json
  pin_competitors :: json
  pin_budgetRecommendation :: json
  pin_selectedServices :: "string list"
  pin_selectedCities :: "string list"
  pin_dailyBudget :: real
  pin_hardCap :: real
  pin_phoneNumber :: string

text \<open>
  The text of \<open>response.choices[0]?.message?.content\<close>, by what the adapter can do with
  it: nothing there (\<open>undefined\<close>, \<open>null\<close> or the empty string), a text \<open>JSON.parse\<close>
  rejects, or a text \<open>JSON.parse\<close> turns into a value. The prompts are text sent to the
  engine; the engine is a function of the adapter's input.
\<close>

datatype llm_content = Empty | Malformed | Json json

record LlmEngine =
  chat_analysis :: "LlmMarketAnalysisInput \<Rightarrow> llm_content outcome"
  chat_plan :: "LlmPlanInput \<Rightarrow> llm_content outcome"

text \<open>The flag the adapter derives for its prompt: is there a keyword with a positive CPC.\<close>

definition hasKeywordData :: "LlmMarketAnalysisInput \<Rightarrow> bool" where
  "hasKeywordData input = (length (filter (\<lambda>c. c > 0) (map avgCpc (in_keywords input))) > 0)"

definition parse_content :: "llm_content outcome \<Rightarrow> json outcome" where
  "parse_content r =
     (case r of
        Inl e \<Rightarrow> Inl e
      | Inr Empty \<Rightarrow> Inl (Error ''LLM returned empty response'')
      | Inr Malformed \<Rightarrow> Inl (SyntaxError ''Unexpected token in JSON'')
      | Inr (Json parsed) \<Rightarrow> Inr parsed)"

definition synthesizeMarketAnalysis :: "LlmEngine \<Rightarrow> LlmMarketAnalysisInput \<Rightarrow> json outcome" where
  "synthesizeMarketAnalysis this input = parse_content (chat_analysis this input)"

definition generateCampaignPlan :: "LlmEngine \<Rightarrow> LlmPlanInput \<Rightarrow> json outcome" where
  "generateCampaignPlan this input = parse_content (chat_plan this input)"





section \<open>Persistence (db.ts)\<close>

text \<open>
  Modelled from the spec: the request, analysis, plan and quota records of \<open>types.ts\<close>
  (not among the sources), with the fields the services and routes read and write. What
  comes out of the reasoning engine is untyped at run time, so those fields hold whatever
  JSON value was there, or \<open>undefined\<close>.
\<close>

record MarketAnalysisRequest =
  zipCode :: string
  services :: "string list"
  targetCities :: "string list option"
  radiusMiles :: "real option"
  websiteUrl :: "string option"

record MarketOverview =
  ov_summary :: "json option"
  ov_competitionLevel :: "json option"
  ov_marketInsight :: "json option"
  ov_websiteAnalysis :: "json option"

record MarketAnalysis =
  overview :: MarketOverview
  serviceOpportunities :: "json option"
  competitors :: "json option"
  recommendedCities :: "json option"
  budgetRecommendation :: "json option"
  dataSourcesUsed :: "string list"
  generatedAt :: nat
  ma_id :: "string option"

record Campaign =
  c_name :: "json option"
  c_service :: "json option"
  c_targetCity :: "json option"
  c_dailyBudget :: "json option"
  c_keywords :: "json option"
  c_negativeKeywords :: json
  c_adCopy :: "json option"
  estimatedClicksPerDay :: "json option"
  estimatedCostPerClick :: "json option"

record CampaignPlan =
  plan_analysisId :: string
  campaigns :: "Campaign list"
  totalDailyBudget :: real
  plan_hardCap :: real
  plan_summary :: "json option"
  plan_generatedAt :: nat
  plan_id :: "string option"

record PlanGenerationRequest =
  analysisId :: string
  selectedServices :: "string list"
  selectedCities :: "string list"
  dailyBudget :: real
  hardCap :: real
  phoneNumber :: string

text \<open>The three tables of the schema; times are ticks of one clock.\<close>

record analysis_row =
  ar_id :: string
  ar_account_id :: string
  ar_user_id :: string
  ar_request_data :: MarketAnalysisRequest
  ar_result_data :: MarketAnalysis
  ar_created_at :: nat

record plan_row =
  pr_id :: string
  pr_account_id :: string
  pr_user_id :: string
  pr_analysis_id :: string
  pr_plan_data :: CampaignPlan
  pr_created_at :: nat

record usage_row =
  ur_account_id :: string
  ur_user_id :: string
  ur_event_type :: string
  ur_metadata :: json
  ur_created_at :: nat

record database =
  growth_market_analyses :: "analysis_row list"
  growth_campaign_plans :: "plan_row list"
  growth_usage_log :: "usage_row list"

text \<open>
  What a request finds outside the process: whether \<open>initDb\<close> has run, the clock, the
  identifier the database generates for an inserted row, the error (if any) the database
  client reports for each kind of call, and the answers of the CRM read and of the
  website fetch (after \<open>formatWebsiteForPrompt\<close>).
\<close>

record world =
  db_initialized :: bool
  dev_bypass_auth :: bool
  now :: nat
  startOfMonth :: nat
  endOfMonth :: nat
  elapsedMs :: real
  generated_id :: string
  usage_read_error :: "string option"
  usage_write_error :: "string option"
  analysis_write_error :: "string option"
  analysis_read_error :: "string option"
  plan_write_error :: "string option"
  plan_read_error :: "string option"
  crm_snapshot :: "string \<Rightarrow> CrmSnapshot option outcome"
  website_content :: "string \<Rightarrow> string outcome"

definition DEFAULT_MONTHLY_QUOTA :: int where "DEFAULT_MONTHLY_QUOTA = 10"

definition db_not_initialized :: js_error where
  "db_not_initialized = Error ''DB not initialized - call initDb() first''"

text \<open>\<open>getCrmSnapshot\<close>: \<open>getDb()\<close> throws before the read when the client is missing.\<close>

definition getCrmSnapshot :: "world \<Rightarrow> string \<Rightarrow> CrmSnapshot option outcome" where
  "getCrmSnapshot w accountId =
     (if \<not> db_initialized w then Inl db_not_initialized else crm_snapshot w accountId)"

record UsageQuota =
  used :: int
  quota_limit :: int
  remaining :: int
  periodStart :: "nat option"
  periodEnd :: "nat option"

text \<open>The rows the count query of \<open>getUsageQuota\<close> selects.\<close>

definition usage_events_since :: "database \<Rightarrow> string \<Rightarrow> nat \<Rightarrow> usage_row list" where
  "usage_events_since db accountId since =
     filter (\<lambda>u. ur_account_id u = accountId \<and> since \<le> ur_created_at u) (growth_usage_log db)"

definition getUsageQuota :: "world \<Rightarrow> database \<Rightarrow> string \<Rightarrow> UsageQuota outcome" where
  "getUsageQuota w db accountId =
     (if \<not> db_initialized w then Inl db_not_initialized
      else case usage_read_error w of
        Some message \<Rightarrow>
          Inr \<lparr>used = DEFAULT_MONTHLY_QUOTA, quota_limit = DEFAULT_MONTHLY_QUOTA, remaining = 0,
               periodStart = Some (startOfMonth w), periodEnd = None\<rparr>
      | None \<Rightarrow>
          (let limit = DEFAULT_MONTHLY_QUOTA;
               used = int (length (usage_events_since db accountId (startOfMonth w)))
           in Inr \<lparr>used = used, quota_limit = limit, remaining = max 0 (limit - used),
                   periodStart = Some (startOfMonth w), periodEnd = Some (endOfMonth w)\<rparr>))"

definition logUsageEvent ::
  "world \<Rightarrow> database \<Rightarrow> string \<Rightarrow> string \<Rightarrow> string \<Rightarrow> json \<Rightarrow> database outcome" where
  "logUsageEvent w db accountId userId eventType metadata =
     (if \<not> db_initialized w then Inl db_not_initialized
      else case usage_write_error w of
        Some message \<Rightarrow> Inr db
      | None \<Rightarrow>
          Inr (db\<lparr>growth_usage_log := growth_usage_log db @
                 [\<lparr>ur_account_id = accountId, ur_user_id = userId, ur_event_type = eventType,
                   ur_metadata = metadata, ur_created_at = now w\<rparr>]\<rparr>))"

text \<open>\<open>data?.id || null\<close>: an empty identifier counts as none.\<close>

definition returned_id :: "string \<Rightarrow> string option" where
  "returned_id i = (if i = [] then None else Some i)"

definition saveMarketAnalysis ::
  "world \<Rightarrow> database \<Rightarrow> string \<Rightarrow> string \<Rightarrow> MarketAnalysisRequest \<Rightarrow> MarketAnalysis
   \<Rightarrow> (string option \<times> database) outcome" where
  "saveMarketAnalysis w db accountId userId requestData resultData =
     (if \<not> db_initialized w then Inl db_not_initialized
      else case analysis_write_error w of
        Some message \<Rightarrow> Inr (None, db)
      | None \<Rightarrow>
          Inr (returned_id (generated_id w),
               db\<lparr>growth_market_analyses := growth_market_analyses db @
                 [\<lparr>ar_id = generated_id w, ar_account_id = accountId, ar_user_id = userId,
                   ar_request_data = requestData, ar_result_data = resultData,
                   ar_created_at = now w\<rparr>]\<rparr>))"

definition saveCampaignPlan ::
  "world \<Rightarrow> database \<Rightarrow> string \<Rightarrow> string \<Rightarrow> string \<Rightarrow> CampaignPlan
   \<Rightarrow> (string option \<times> database) outcome" where
  "saveCampaignPlan w db accountId userId analysis_id planData =
     (if \<not> db_initialized w then Inl db_not_initialized
      else case plan_write_error w of
        Some message \<Rightarrow> Inr (None, db)
      | None \<Rightarrow>
          Inr (returned_id (generated_id w),
               db\<lparr>growth_campaign_plans := growth_campaign_plans db @
                 [\<lparr>pr_id = generated_id w, pr_account_id = accountId, pr_user_id = userId,
                   pr_analysis_id = analysis_id, pr_plan_data = planData,
                   pr_created_at = now w\<rparr>]\<rparr>))"

text \<open>
  \<open>.eq('id', i).eq('account_id', a).single()\<close>: the rows matching both filters; \<open>single\<close>
  reports an error unless exactly one row matches.
\<close>

definition select_single :: "string option \<Rightarrow> 'a list \<Rightarrow> string + 'a" where
  "select_single read_error rows =
     (case read_error of
        Some message \<Rightarrow> Inl message
      | None \<Rightarrow> (case rows of [r] \<Rightarrow> Inr r | _ \<Rightarrow> Inl ''PGRST116''))"

definition find_analysis :: "world \<Rightarrow> database \<Rightarrow> string \<Rightarrow> string \<Rightarrow> string + analysis_row" where
  "find_analysis w db analysis_id accountId =
     select_single (analysis_read_error w)
       (filter (\<lambda>r. ar_id r = analysis_id \<and> ar_account_id r = accountId)
               (growth_market_analyses db))"

section \<open>Data providers (providers/google-ads-keyword-planner.ts, google-places.ts, serper.ts)\<close>

datatype planner_level = LOW | MEDIUM | HIGH | UNSPECIFIED

record KeywordMetrics =
  average_cpc_micros :: "real option"
  avg_monthly_searches :: "real option"
  km_competition :: "planner_level option"

record KeywordIdea =
  idea_text :: "string option"
  keyword_idea_metrics :: "KeywordMetrics option"

definition mapCompetition :: "planner_level option \<Rightarrow> competition_tier" where
  "mapCompetition level =
     (case level of
        Some LOW \<Rightarrow> Low
      | Some MEDIUM \<Rightarrow> Medium
      | Some HIGH \<Rightarrow> High
      | _ \<Rightarrow> Medium)"

definition microsToDollars :: "real option \<Rightarrow> real" where
  "microsToDollars micros =
     (case micros of
        None \<Rightarrow> 0
      | Some num \<Rightarrow> if num = 0 then 0 else js_round (num / 1000000 * 100) / 100)"

text \<open>One idea of the response: the entry pushed for it, if any.\<close>

definition idea_entry :: "string list \<Rightarrow> string \<Rightarrow> KeywordIdea \<Rightarrow> KeywordData option" where
  "idea_entry cities svc idea =
     (case keyword_idea_metrics idea of
        None \<Rightarrow> None
      | Some metrics \<Rightarrow>
          (let kw = (case idea_text idea of None \<Rightarrow> [] | Some t \<Rightarrow> t);
               cpc = microsToDollars (average_cpc_micros metrics);
               searches = (case avg_monthly_searches metrics of None \<Rightarrow> 0 | Some n \<Rightarrow> n);
               matchedCity = find (\<lambda>c. js_includes (toLowerCase kw) (toLowerCase c)) cities
           in if searches = 0 \<and> cpc = 0 then None
              else Some \<lparr>keyword = kw, monthlySearches = searches, avgCpc = cpc,
                         competition = mapCompetition (km_competition metrics), service = svc,
                         city = (case matchedCity of
                                   None \<Rightarrow> None
                                 | Some c \<Rightarrow> if c = [] then None else Some c)\<rparr>))"

text \<open>
  The Keyword Planner call for one service is the world's: it throws, answers without
  results, or answers with ideas. The geo targets resolved from the cities only shape the
  request sent, so the answer is taken per service. The \<open>try\<close> around one service's turn
  swallows the exception.
\<close>

definition planner_service_entries ::
  "(string \<Rightarrow> KeywordIdea list option outcome) \<Rightarrow> string list \<Rightarrow> string \<Rightarrow> KeywordData list" where
  "planner_service_entries ideas_api cities svc =
     (case ideas_api svc of
        Inl err \<Rightarrow> []
      | Inr None \<Rightarrow> []
      | Inr (Some results) \<Rightarrow> List.map_filter (idea_entry cities svc) results)"

definition planner_getKeywordData ::
  "(string \<Rightarrow> KeywordIdea list option outcome) \<Rightarrow> string list \<Rightarrow> string list \<Rightarrow> string
   \<Rightarrow> KeywordData list outcome" where
  "planner_getKeywordData ideas_api svcs cities state =
     Inr (concat (map (planner_service_entries ideas_api cities) svcs))"

definition places_getCompetitors ::
  "string \<Rightarrow> (string \<Rightarrow> real \<Rightarrow> PlacesCompetitor list outcome) \<Rightarrow> string \<Rightarrow> real option
   \<Rightarrow> PlacesCompetitor list outcome" where
  "places_getCompetitors apiKey places_api zip_code radius =
     (if apiKey = [] then Inr []
      else case places_api zip_code (case radius of None \<Rightarrow> 25 | Some r \<Rightarrow> r) of
             Inl err \<Rightarrow> Inr []
           | Inr results \<Rightarrow> Inr results)"

definition serper_getSerpResults ::
  "bool \<Rightarrow> string \<Rightarrow> (string \<Rightarrow> string \<Rightarrow> SerpResult option outcome) \<Rightarrow> string \<Rightarrow> string
   \<Rightarrow> SerpResult option outcome" where
  "serper_getSerpResults enabled apiKey serper_api q location =
     (if \<not> enabled \<or> apiKey = [] then Inr None
      else case serper_api q location of
             Inl err \<Rightarrow> Inr None
           | Inr r \<Rightarrow> Inr r)"

section \<open>Market analysis service (services/market-analysis.ts)\<close>

text \<open>
  \<open>serpProvider\<close> is \<open>null\<close> when SERP is disabled; a provider may lack the optional
  \<open>getSerpResults\<close> method.
\<close>

datatype serp_provider =
    SerpDisabled
  | SerpProvider "(string \<Rightarrow> string \<Rightarrow> SerpResult option outcome) option"

record MarketAnalysisServiceDeps =
  dep_getKeywordData :: "string list \<Rightarrow> string list \<Rightarrow> string \<Rightarrow> KeywordData list outcome"
  dep_getCompetitors :: "string \<Rightarrow> real option \<Rightarrow> PlacesCompetitor list outcome"
  dep_serpProvider :: serp_provider
  dep_llm :: LlmEngine

text \<open>\<open>promise.catch(err => fallback)\<close>.\<close>

definition catch_with :: "'a outcome \<Rightarrow> 'a \<Rightarrow> 'a" where
  "catch_with r fallback = (case r of Inl err \<Rightarrow> fallback | Inr v \<Rightarrow> v)"

definition serp_queries :: "MarketAnalysisRequest \<Rightarrow> string list" where
  "serp_queries request =
     concat (map (\<lambda>svc. (svc @ '' '' @ zipCode request)
                        # (case targetCities request of
                             Some (c # cs) \<Rightarrow> if c = [] then [] else [svc @ '' '' @ c]
                           | _ \<Rightarrow> []))
                 (take 3 (services request)))"

fun serp_loop ::
  "(string \<Rightarrow> string \<Rightarrow> SerpResult option outcome) option \<Rightarrow> string \<Rightarrow> string list
   \<Rightarrow> SerpResult list outcome" where
  "serp_loop getSerpResults location [] = Inr []"
| "serp_loop getSerpResults location (q # qs) =
     (case (case getSerpResults of None \<Rightarrow> Inr None | Some m \<Rightarrow> m q location) of
        Inl e \<Rightarrow> Inl e
      | Inr result \<Rightarrow>
          (case serp_loop getSerpResults location qs of
             Inl e \<Rightarrow> Inl e
           | Inr results \<Rightarrow> Inr ((case result of None \<Rightarrow> [] | Some r \<Rightarrow> [r]) @ results)))"

definition gatherSerpResults ::
  "MarketAnalysisServiceDeps \<Rightarrow> MarketAnalysisRequest \<Rightarrow> SerpResult list outcome" where
  "gatherSerpResults deps request =
     (case dep_serpProvider deps of
        SerpDisabled \<Rightarrow> Inr []
      | SerpProvider getSerpResults \<Rightarrow>
          serp_loop getSerpResults (zipCode request) (take 3 (serp_queries request)))"

definition getDataSourcesUsed :: "nat \<Rightarrow> nat \<Rightarrow> nat \<Rightarrow> bool \<Rightarrow> string list" where
  "getDataSourcesUsed keywordCount competitorCount serpCount hasCrm =
     (if keywordCount > 0 then [''google_ads_keyword_planner''] else [])
     @ (if competitorCount > 0 then [''google_places''] else [])
     @ (if serpCount > 0 then [''serper_serp''] else [])
     @ (if hasCrm then [''crm_data''] else [])
     @ [''openai_llm'']"

text \<open>A string that is there and not empty.\<close>

definition present :: "string option \<Rightarrow> string option" where
  "present s = (case s of None \<Rightarrow> None | Some t \<Rightarrow> if t = [] then None else Some t)"

text \<open>Steps 1 to 4 of \<open>analyze\<close>: the five branches, each with its fallback, and the payload.\<close>

definition gather ::
  "MarketAnalysisServiceDeps \<Rightarrow> world \<Rightarrow> MarketAnalysisRequest \<Rightarrow> string
   \<Rightarrow> LlmMarketAnalysisInput" where
  "gather deps w request accountId =
     (let competitors = catch_with (dep_getCompetitors deps (zipCode request) (radiusMiles request)) [];
          serpResults = catch_with (gatherSerpResults deps request) [];
          crmData = catch_with (getCrmSnapshot w accountId) None;
          websiteData = (case present (websiteUrl request) of
                           None \<Rightarrow> None
                         | Some url \<Rightarrow> catch_with (map_sum (\<lambda>e. e) Some (website_content w url)) None);
          keywords = catch_with (dep_getKeywordData deps (services request)
                                   (case targetCities request of None \<Rightarrow> [] | Some cs \<Rightarrow> cs) []) []
      in \<lparr>in_services = services request, in_zipCode = zipCode request, in_keywords = keywords,
          in_competitors = competitors, in_serpResults = serpResults, in_crmData = crmData,
          in_websiteUrl = websiteUrl request, in_websiteContent = present websiteData\<rparr>)"

text \<open>Step 5, for an \<open>llmOutput\<close> that is not \<open>null\<close>.\<close>

definition assemble :: "world \<Rightarrow> LlmMarketAnalysisInput \<Rightarrow> json \<Rightarrow> MarketAnalysis" where
  "assemble w llmInput llmOutput =
     \<lparr>overview =
        \<lparr>ov_summary = field llmOutput ''summary'',
         ov_competitionLevel = field llmOutput ''competitionLevel'',
         ov_marketInsight = field llmOutput ''marketInsight'',
         ov_websiteAnalysis = (case field llmOutput ''websiteAnalysis'' of
                                 None \<Rightarrow> None
                               | Some a \<Rightarrow> if truthy a then Some a else None)\<rparr>,
      serviceOpportunities = field llmOutput ''serviceOpportunities'',
      competitors = field llmOutput ''competitorSnapshots'',
      recommendedCities = field llmOutput ''recommendedCities'',
      budgetRecommendation = field llmOutput ''budgetRecommendation'',
      dataSourcesUsed = getDataSourcesUsed (length (in_keywords llmInput))
                          (length (in_competitors llmInput)) (length (in_serpResults llmInput))
                          (in_crmData llmInput \<noteq> None),
      generatedAt = now w,
      ma_id = None\<rparr>"

definition id_json :: "string option \<Rightarrow> json" where
  "id_json i = (case i of None \<Rightarrow> JNull | Some s \<Rightarrow> JStr s)"

definition analysis_metadata :: "world \<Rightarrow> MarketAnalysisRequest \<Rightarrow> string option \<Rightarrow> json" where
  "analysis_metadata w request analysis_id =
     JObj [(''zipCode'', JStr (zipCode request)),
           (''services'', JArr (map JStr (services request))),
           (''elapsedMs'', JNum (elapsedMs w)),
           (''analysisId'', id_json analysis_id)]"

definition analyze ::
  "MarketAnalysisServiceDeps \<Rightarrow> world \<Rightarrow> database \<Rightarrow> MarketAnalysisRequest \<Rightarrow> string \<Rightarrow> string
   \<Rightarrow> MarketAnalysis outcome \<times> database" where
  "analyze deps w db request accountId userId =
     (let llmInput = gather deps w request accountId in
      case synthesizeMarketAnalysis (dep_llm deps) llmInput of
        Inl e \<Rightarrow> (Inl e, db)
      | Inr llmOutput \<Rightarrow>
          if llmOutput = JNull
          then (Inl (TypeError ''Cannot read properties of null (reading summary)''), db)
          else
            (let analysis = assemble w llmInput llmOutput in
             case saveMarketAnalysis w db accountId userId request analysis of
               Inl e \<Rightarrow> (Inl e, db)
             | Inr (analysis_id, db1) \<Rightarrow>
                 (case logUsageEvent w db1 accountId userId ''market_analysis''
                         (analysis_metadata w request analysis_id) of
                    Inl e \<Rightarrow> (Inl e, db1)
                  | Inr db2 \<Rightarrow> (Inr (analysis\<lparr>ma_id := analysis_id\<rparr>), db2))))"

section \<open>Plan generation service (services/plan-generation.ts)\<close>

definition campaign_of :: "json \<Rightarrow> Campaign outcome" where
  "campaign_of c =
     (if c = JNull then Inl (TypeError ''Cannot read properties of null (reading name)'')
      else Inr \<lparr>c_name = field c ''name'', c_service = field c ''service'',
                c_targetCity = field c ''targetCity'', c_dailyBudget = field c ''dailyBudget'',
                c_keywords = field c ''keywords'',
                c_negativeKeywords = or_default (field c ''negativeKeywords'') (JArr []),
                c_adCopy = field c ''adCopy'',
                estimatedClicksPerDay = field c ''estimatedClicksPerDay'',
                estimatedCostPerClick = field c ''estimatedCostPerClick''\<rparr>)"

fun map_outcome :: "('a \<Rightarrow> 'b outcome) \<Rightarrow> 'a list \<Rightarrow> 'b list outcome" where
  "map_outcome f [] = Inr []"
| "map_outcome f (x # xs) =
     (case f x of
        Inl e \<Rightarrow> Inl e
      | Inr y \<Rightarrow> (case map_outcome f xs of Inl e \<Rightarrow> Inl e | Inr ys \<Rightarrow> Inr (y # ys)))"

text \<open>\<open>llmOutput.campaigns.map(c => ...)\<close>: only an array has \<open>map\<close>.\<close>

definition plan_campaigns :: "json \<Rightarrow> Campaign list outcome" where
  "plan_campaigns llmOutput =
     (if llmOutput = JNull
      then Inl (TypeError ''Cannot read properties of null (reading campaigns)'')
      else case field llmOutput ''campaigns'' of
             Some (JArr cs) \<Rightarrow> map_outcome campaign_of cs
           | _ \<Rightarrow> Inl (TypeError ''llmOutput.campaigns.map is not a function''))"

definition plan_input :: "MarketAnalysis \<Rightarrow> PlanGenerationRequest \<Rightarrow> LlmPlanInput" where
  "plan_input marketAnalysis request =
     \<lparr>pin_summary = or_default (ov_summary (overview marketAnalysis)) (JStr []),
      pin_serviceOpportunities = or_default (serviceOpportunities marketAnalysis) (JArr []),
      pin_competitors = or_default (competitors marketAnalysis) (JArr []),
      pin_budgetRecommendation = or_default (budgetRecommendation marketAnalysis) (JObj []),
      pin_selectedServices = selectedServices request,
      pin_selectedCities = selectedCities request,
      pin_dailyBudget = dailyBudget request,
      pin_hardCap = hardCap request,
      pin_phoneNumber = phoneNumber request\<rparr>"

definition plan_metadata :: "world \<Rightarrow> PlanGenerationRequest \<Rightarrow> nat \<Rightarrow> string option \<Rightarrow> json" where
  "plan_metadata w request campaignCount planId =
     JObj [(''analysisId'', JStr (analysisId request)),
           (''campaignCount'', JNum (real campaignCount)),
           (''elapsedMs'', JNum (elapsedMs w)),
           (''planId'', id_json planId)]"

definition generatePlan ::
  "LlmEngine \<Rightarrow> world \<Rightarrow> database \<Rightarrow> PlanGenerationRequest \<Rightarrow> string \<Rightarrow> string
   \<Rightarrow> CampaignPlan outcome \<times> database" where
  "generatePlan llm w db request accountId userId =
     (if \<not> db_initialized w then (Inl db_not_initialized, db)
      else case find_analysis w db (analysisId request) accountId of
        Inl err \<Rightarrow> (Inl (Error (''Market analysis not found: '' @ analysisId request)), db)
      | Inr analysis \<Rightarrow>
          (let marketAnalysis = ar_result_data analysis;
               llmInput = plan_input marketAnalysis request in
           case generateCampaignPlan llm llmInput of
             Inl e \<Rightarrow> (Inl e, db)
           | Inr llmOutput \<Rightarrow>
               (case plan_campaigns llmOutput of
                  Inl e \<Rightarrow> (Inl e, db)
                | Inr cs \<Rightarrow>
                    (let plan = \<lparr>plan_analysisId = analysisId request, campaigns = cs,
                                 totalDailyBudget = dailyBudget request,
                                 plan_hardCap = hardCap request,
                                 plan_summary = field llmOutput ''summary'',
                                 plan_generatedAt = now w, plan_id = None\<rparr> in
                     case saveCampaignPlan w db accountId userId (analysisId request) plan of
                       Inl e \<Rightarrow> (Inl e, db)
                     | Inr (planId, db1) \<Rightarrow>
                         (case logUsageEvent w db1 accountId userId ''plan_generation''
                                 (plan_metadata w request (length cs) planId) of
                            Inl e \<Rightarrow> (Inl e, db1)
                          | Inr db2 \<Rightarrow> (Inr (plan\<lparr>plan_id := planId\<rparr>), db2))))))"

section \<open>Quota gate and routes (middleware/usage.ts, routes/analysis.ts, routes/plan.ts)\<close>

record AuthContext =
  accountId :: string
  userId :: string

datatype http_body =
    ErrorBody string "string option"
  | QuotaBody string int int "nat option"
  | AnalysisBody MarketAnalysis
  | StoredAnalysisBody string MarketAnalysis nat
  | PlanBody CampaignPlan
  | StoredPlanBody string string CampaignPlan nat

type_synonym http_response = "nat \<times> http_body"

text \<open>The middleware either calls \<open>next()\<close> (with the quota it attached) or responds itself.\<close>

datatype gate = Next "UsageQuota option" | Respond http_response

definition createUsageMiddleware :: "world \<Rightarrow> database \<Rightarrow> AuthContext option \<Rightarrow> gate" where
  "createUsageMiddleware w db auth =
     (if dev_bypass_auth w
      then Next (Some \<lparr>used = 0, quota_limit = 999, remaining = 999,
                       periodStart = None, periodEnd = None\<rparr>)
      else case auth of
        None \<Rightarrow> Respond (401, ErrorBody ''Not authenticated'' None)
      | Some a \<Rightarrow>
          (case getUsageQuota w db (accountId a) of
             Inl err \<Rightarrow> Next None
           | Inr quota \<Rightarrow>
               if remaining quota \<le> 0
               then Respond (429, QuotaBody ''Monthly analysis quota exceeded''
                                    (used quota) (quota_limit quota) (periodEnd quota))
               else Next (Some quota)))"

definition message_of :: "js_error \<Rightarrow> string" where
  "message_of e = (case e of Error m \<Rightarrow> m | TypeError m \<Rightarrow> m | SyntaxError m \<Rightarrow> m)"

definition no_auth :: js_error where
  "no_auth = TypeError ''Cannot destructure property accountId of req.auth as it is undefined''"

record analyze_body =
  b_zipCode :: "string option"
  b_services :: "string list option"
  b_targetCities :: "string list option"
  b_radiusMiles :: "real option"
  b_websiteUrl :: "string option"

text \<open>\<open>router.post('/')\<close> of the analysis router.\<close>

definition post_analyze ::
  "MarketAnalysisServiceDeps \<Rightarrow> world \<Rightarrow> database \<Rightarrow> AuthContext option \<Rightarrow> analyze_body
   \<Rightarrow> http_response \<times> database" where
  "post_analyze deps w db auth body =
     (case auth of
        None \<Rightarrow> ((500, ErrorBody ''Market analysis failed'' (Some (message_of no_auth))), db)
      | Some a \<Rightarrow>
          (case (present (b_zipCode body), b_services body) of
             (Some z, Some (s # ss)) \<Rightarrow>
               (let request = \<lparr>zipCode = z, services = s # ss,
                               targetCities = Some (case b_targetCities body of
                                                      None \<Rightarrow> [] | Some cs \<Rightarrow> cs),
                               radiusMiles = Some (case b_radiusMiles body of
                                                     None \<Rightarrow> 25
                                                   | Some r \<Rightarrow> if r = 0 then 25 else r),
                               websiteUrl = present (b_websiteUrl body)\<rparr> in
                case analyze deps w db request (accountId a) (userId a) of
                  (Inl err, db') \<Rightarrow>
                    ((500, ErrorBody ''Market analysis failed'' (Some (message_of err))), db')
                | (Inr analysis, db') \<Rightarrow> ((200, AnalysisBody analysis), db'))
           | _ \<Rightarrow>
               ((400, ErrorBody ''Missing required fields: zipCode and services[]'' None), db)))"

text \<open>\<open>router.get('/:id')\<close> of the analysis router.\<close>

definition get_analysis :: "world \<Rightarrow> database \<Rightarrow> AuthContext option \<Rightarrow> string \<Rightarrow> http_response" where
  "get_analysis w db auth analysis_id =
     (case auth of
        None \<Rightarrow> (500, ErrorBody ''Failed to retrieve analysis'' None)
      | Some a \<Rightarrow>
          if \<not> db_initialized w then (500, ErrorBody ''Failed to retrieve analysis'' None)
          else case find_analysis w db analysis_id (accountId a) of
                 Inl err \<Rightarrow> (404, ErrorBody ''Analysis not found'' None)
               | Inr row \<Rightarrow>
                   (200, StoredAnalysisBody (ar_id row) (ar_result_data row) (ar_created_at row)))"

record plan_body =
  b_analysisId :: "string option"
  b_selectedServices :: "string list option"
  b_selectedCities :: "string list option"
  b_dailyBudget :: "real option"
  b_hardCap :: "real option"
  b_phoneNumber :: "string option"

definition nonzero :: "real option \<Rightarrow> real option" where
  "nonzero x = (case x of None \<Rightarrow> None | Some r \<Rightarrow> if r = 0 then None else Some r)"

text \<open>\<open>router.post('/')\<close> of the plan router.\<close>

definition post_plan ::
  "LlmEngine \<Rightarrow> world \<Rightarrow> database \<Rightarrow> AuthContext option \<Rightarrow> plan_body
   \<Rightarrow> http_response \<times> database" where
  "post_plan llm w db auth body =
     (case auth of
        None \<Rightarrow> ((500, ErrorBody ''Plan generation failed'' (Some (message_of no_auth))), db)
      | Some a \<Rightarrow>
          (case (present (b_analysisId body), b_selectedServices body, b_selectedCities body) of
             (Some i, Some (s # ss), Some (c # cs)) \<Rightarrow>
               (case (nonzero (b_dailyBudget body), nonzero (b_hardCap body)) of
                  (Some budget, Some cap) \<Rightarrow>
                    (let request = \<lparr>analysisId = i, selectedServices = s # ss,
                                    selectedCities = c # cs, dailyBudget = budget, hardCap = cap,
                                    phoneNumber = (case b_phoneNumber body of
                                                     None \<Rightarrow> [] | Some p \<Rightarrow> p)\<rparr> in
                     case generatePlan llm w db request (accountId a) (userId a) of
                       (Inl err, db') \<Rightarrow>
                         ((500, ErrorBody ''Plan generation failed'' (Some (message_of err))), db')
                     | (Inr plan, db') \<Rightarrow> ((200, PlanBody plan), db'))
                | _ \<Rightarrow>
                    ((400, ErrorBody ''Missing required fields: dailyBudget, hardCap'' None), db))
           | _ \<Rightarrow>
               ((400, ErrorBody
                   ''Missing required fields: analysisId, selectedServices[], selectedCities[]''
                   None), db)))"

section \<open>Wiring (index.ts)\<close>

text \<open>The fields of \<open>Config\<close> (config.ts) that the modelled code reads.\<close>

record Config =
  googleAdsDeveloperToken :: string
  googleAdsClientId :: string
  googleAdsClientSecret :: string
  googleAdsRefreshToken :: string
  googleAdsMccCustomerId :: string
  googlePlacesApiKey :: string
  serperApiKey :: string
  serpEnabled :: bool

definition isConfigured :: "Config \<Rightarrow> bool" where
  "isConfigured config \<longleftrightarrow>
     googleAdsDeveloperToken config \<noteq> [] \<and> googleAdsClientId config \<noteq> []
     \<and> googleAdsClientSecret config \<noteq> [] \<and> googleAdsRefreshToken config \<noteq> []
     \<and> googleAdsMccCustomerId config \<noteq> []"

text \<open>The remote services the providers call.\<close>

record externals =
  ideas_api :: "string \<Rightarrow> KeywordIdea list option outcome"
  places_api :: "string \<Rightarrow> real \<Rightarrow> PlacesCompetitor list outcome"
  serper_api :: "string \<Rightarrow> string \<Rightarrow> SerpResult option outcome"
  engine :: LlmEngine

text \<open>
  \<open>main\<close>: the keyword provider is the Keyword Planner provider, configured or not; the
  template estimates are not wired in.
\<close>

definition main_deps :: "Config \<Rightarrow> externals \<Rightarrow> MarketAnalysisServiceDeps" where
  "main_deps config ext =
     \<lparr>dep_getKeywordData = planner_getKeywordData (ideas_api ext),
      dep_getCompetitors = places_getCompetitors (googlePlacesApiKey config) (places_api ext),
      dep_serpProvider =
        (if serpEnabled config
         then SerpProvider (Some (serper_getSerpResults (serpEnabled config)
                                    (serperApiKey config) (serper_api ext)))
         else SerpDisabled),
      dep_llm = engine ext\<rparr>"

text \<open>
  The sources also hold an earlier \<open>main\<close>, in which the keyword provider falls back on
  the template estimates: the estimate provider itself when the Keyword Planner is not
  configured, otherwise a wrapper that tries the Keyword Planner first. The provider
  object is created once with its default market factor; \<open>analyze\<close> has no call that
  sets it.
\<close>

definition earlier_getKeywordData ::
  "Config \<Rightarrow> externals \<Rightarrow> EstimateMarketDataProvider \<Rightarrow> string list \<Rightarrow> string list \<Rightarrow> string
   \<Rightarrow> KeywordData list outcome" where
  "earlier_getKeywordData config ext estimateProvider svcs cities state =
     (if isConfigured config
      then (case planner_getKeywordData (ideas_api ext) svcs cities state of
              Inl err \<Rightarrow> getKeywordData estimateProvider svcs cities state
            | Inr realData \<Rightarrow>
                if length realData > 0 then Inr realData
                else getKeywordData estimateProvider svcs cities state)
      else getKeywordData estimateProvider svcs cities state)"

definition earlier_main_deps :: "Config \<Rightarrow> externals \<Rightarrow> MarketAnalysisServiceDeps" where
  "earlier_main_deps config ext =
     (main_deps config ext)
       \<lparr>dep_getKeywordData := earlier_getKeywordData config ext new_EstimateMarketDataProvider\<rparr>"

text \<open>
  \<open>app.use('/api/analyze', usageMiddleware, createAnalysisRouter(analysisService))\<close> and
  \<open>app.use('/api/plan', usageMiddleware, createPlanRouter(planService))\<close>: the gate runs
  first, the router only after \<open>next()\<close>.
\<close>

definition api_post_analyze ::
  "MarketAnalysisServiceDeps \<Rightarrow> world \<Rightarrow> database \<Rightarrow> AuthContext option \<Rightarrow> analyze_body
   \<Rightarrow> http_response \<times> database" where
  "api_post_analyze deps w db auth body =
     (case createUsageMiddleware w db auth of
        Respond r \<Rightarrow> (r, db)
      | Next quota \<Rightarrow> post_analyze deps w db auth body)"

definition api_get_analysis ::
  "world \<Rightarrow> database \<Rightarrow> AuthContext option \<Rightarrow> string \<Rightarrow> http_response" where
  "api_get_analysis w db auth analysis_id =
     (case createUsageMiddleware w db auth of
        Respond r \<Rightarrow> r
      | Next quota \<Rightarrow> get_analysis w db auth analysis_id)"

definition api_post_plan ::
  "LlmEngine \<Rightarrow> world \<Rightarrow> database \<Rightarrow> AuthContext option \<Rightarrow> plan_body
   \<Rightarrow> http_response \<times> database" where
  "api_post_plan llm w db auth body =
     (case createUsageMiddleware w db auth of
        Respond r \<Rightarrow> (r, db)
      | Next quota \<Rightarrow> post_plan llm w db auth body)"

section \<open>The properties the specification names\<close>


text \<open>
  The cross-stage contract of the specification: a campaign's estimated cost per click is
  the \<open>avgCpc\<close> of the source analysis's opportunity for the campaign's service.
\<close>

definition service_opportunities :: "MarketAnalysis \<Rightarrow> json list" where
  "service_opportunities a = (case serviceOpportunities a of Some (JArr xs) \<Rightarrow> xs | _ \<Rightarrow> [])"

definition cpc_consistent :: "MarketAnalysis \<Rightarrow> CampaignPlan \<Rightarrow> bool" where
  "cpc_consistent a plan \<longleftrightarrow>
     (\<forall>c \<in> set (campaigns plan). \<forall>so \<in> set (service_opportunities a).
        field so ''service'' = c_service c \<longrightarrow> estimatedCostPerClick c = field so ''avgCpc'')"




definition no_ideas :: "KeywordIdea list option outcome \<Rightarrow> bool" where
  "no_ideas r = (case r of Inl e \<Rightarrow> True | Inr None \<Rightarrow> True | Inr (Some xs) \<Rightarrow> xs = [])"

section \<open>Sample inputs\<close>

definition sample_world :: world where
  "sample_world =
     \<lparr>db_initialized = True, dev_bypass_auth = False, now = 100, startOfMonth = 90,
      endOfMonth = 120, elapsedMs = 1500, generated_id = ''a2'',
      usage_read_error = None, usage_write_error = None, analysis_write_error = None,
      analysis_read_error = None, plan_write_error = None, plan_read_error = None,
      crm_snapshot = (\<lambda>account. Inr None),
      website_content = (\<lambda>url. Inl (Error ''fetch failed''))\<rparr>"

definition sample_output :: json where
  "sample_output =
     JObj [(''summary'', JStr ''Quiet market.''),
           (''competitionLevel'', JStr ''low''),
           (''marketInsight'', JStr ''Few established painters.''),
           (''serviceOpportunities'',
              JArr [JObj [(''service'', JStr ''interior painting''), (''avgCpc'', JNum 10)]]),
           (''competitorSnapshots'', JArr []),
           (''recommendedCities'', JArr []),
           (''budgetRecommendation'', JObj [])]"

definition sample_plan_output :: json where
  "sample_plan_output =
     JObj [(''campaigns'',
              JArr [JObj [(''name'', JStr ''[PW] Interior Painting''),
                          (''service'', JStr ''interior painting''),
                          (''estimatedCostPerClick'', JNum 5)]]),
           (''summary'', JStr ''One campaign.'')]"

definition sample_engine :: LlmEngine where
  "sample_engine =
     \<lparr>chat_analysis = (\<lambda>input. Inr (Json sample_output)),
      chat_plan = (\<lambda>input. Inr (Json sample_plan_output))\<rparr>"

definition unconfigured :: Config where
  "unconfigured =
     \<lparr>googleAdsDeveloperToken = [], googleAdsClientId = [], googleAdsClientSecret = [],
      googleAdsRefreshToken = [], googleAdsMccCustomerId = [],
      googlePlacesApiKey = ''places-key'', serperApiKey = [], serpEnabled = False\<rparr>"

definition sample_externals :: externals where
  "sample_externals =
     \<lparr>ideas_api = (\<lambda>svc. Inl (Error ''No customer found'')),
      places_api = (\<lambda>z r. Inr []),
      serper_api = (\<lambda>q l. Inr None),
      engine = sample_engine\<rparr>"

definition sample_request :: MarketAnalysisRequest where
  "sample_request =
     \<lparr>zipCode = ''92101'', services = [''interior painting''], targetCities = Some [],
      radiusMiles = Some 25, websiteUrl = None\<rparr>"

definition sample_analysis :: MarketAnalysis where
  "sample_analysis =
     \<lparr>overview = \<lparr>ov_summary = Some (JStr ''Quiet market.''),
                  ov_competitionLevel = Some (JStr ''low''),
                  ov_marketInsight = Some (JStr ''Few established painters.''),
                  ov_websiteAnalysis = None\<rparr>,
      serviceOpportunities =
        Some (JArr [JObj [(''service'', JStr ''interior painting''), (''avgCpc'', JNum 10)]]),
      competitors = Some (JArr []),
      recommendedCities = Some (JArr []),
      budgetRecommendation = Some (JObj []),
      dataSourcesUsed = [''openai_llm''],
      generatedAt = 100,
      ma_id = None\<rparr>"

definition empty_db :: database where
  "empty_db = \<lparr>growth_market_analyses = [], growth_campaign_plans = [], growth_usage_log = []\<rparr>"

text \<open>A database holding one analysis, \<open>a1\<close>, of account \<open>acct-1\<close>.\<close>

definition sample_db :: database where
  "sample_db =
     \<lparr>growth_market_analyses =
        [\<lparr>ar_id = ''a1'', ar_account_id = ''acct-1'', ar_user_id = ''user-1'',
          ar_request_data = sample_request, ar_result_data = sample_analysis,
          ar_created_at = 95\<rparr>],
      growth_campaign_plans = [], growth_usage_log = []\<rparr>"

definition sample_plan_request :: PlanGenerationRequest where
  "sample_plan_request =
     \<lparr>analysisId = ''a1'', selectedServices = [''interior painting''],
      selectedCities = [''San Diego''], dailyBudget = 50, hardCap = 1200,
      phoneNumber = ''555-0100''\<rparr>"

definition sample_plan :: CampaignPlan where
  "sample_plan =
     \<lparr>plan_analysisId = ''a1'',
      campaigns =
        [\<lparr>c_name = Some (JStr ''[PW] Interior Painting''),
          c_service = Some (JStr ''interior painting''),
          c_targetCity = None, c_dailyBudget = None, c_keywords = None,
          c_negativeKeywords = JArr [], c_adCopy = None, estimatedClicksPerDay = None,
          estimatedCostPerClick = Some (JNum 5)\<rparr>],
      totalDailyBudget = 50, plan_hardCap = 1200,
      plan_summary = Some (JStr ''One campaign.''),
      plan_generatedAt = 100, plan_id = Some ''a2''\<rparr>"

definition sample_auth :: AuthContext where
  "sample_auth = \<lparr>accountId = ''acct-1'', userId = ''user-1''\<rparr>"

definition sample_body :: analyze_body where
  "sample_body =
     \<lparr>b_zipCode = Some ''92101'', b_services = Some [''interior painting''],
      b_targetCities = None, b_radiusMiles = None, b_websiteUrl = None\<rparr>"

definition sample_plan_body :: plan_body where
  "sample_plan_body =
     \<lparr>b_analysisId = Some ''a1'', b_selectedServices = Some [''interior painting''],
      b_selectedCities = Some [''San Diego''], b_dailyBudget = Some 50, b_hardCap = Some 1200,
      b_phoneNumber = None\<rparr>"









text \<open>The template estimates of \<open>interior painting\<close> without cities at market factor 0.\<close>

definition interior_minimum :: "string \<Rightarrow> KeywordData" where
  "interior_minimum kw =
     \<lparr>keyword = kw, monthlySearches = 300, avgCpc = 8, competition = Medium,
      service = ''interior painting'', city = None\<rparr>"

definition interior_at_zero :: "KeywordData list" where
  "interior_at_zero =
     [interior_minimum ''interior painting'', interior_minimum ''interior house painting'',
      interior_minimum ''interior painter near me'', interior_minimum ''room painting'',
      interior_minimum ''indoor painting'', interior_minimum ''house painting interior'']"

section \<open>Properties of the interpolator\<close>

lemma js_round_mono: "x \<le> y \<Longrightarrow> js_round x \<le> js_round y"
  unfolding js_round_def by (simp add: floor_mono)


lemma calculateMarketFactor_le_1: "calculateMarketFactor c r \<le> 1"
proof -
  let ?v = "min (c / 20) 1 * (35 / 100) + min (r / 400) 1 * (65 / 100)"
  have "?v \<le> 1" by (simp add: min_def)
  then have "js_round (?v * 100) \<le> js_round 100"
    by (intro js_round_mono) simp
  moreover have "js_round 100 = 100" by (simp add: js_round_def)
  ultimately show ?thesis
    by (simp add: calculateMarketFactor_def MAX_COMPETITORS_SIGNAL_def
        MAX_AVG_REVIEWS_SIGNAL_def COMPETITOR_COUNT_WEIGHT_def REVIEW_DENSITY_WEIGHT_def)
qed

lemma calculateMarketFactor_negative: "calculateMarketFactor (- 20) 0 = - (35 / 100)"
  by (simp add: calculateMarketFactor_def MAX_COMPETITORS_SIGNAL_def
      MAX_AVG_REVIEWS_SIGNAL_def COMPETITOR_COUNT_WEIGHT_def REVIEW_DENSITY_WEIGHT_def
      js_round_def)

lemma calculateMarketFactor_nonneg:
  assumes "0 \<le> c" and "0 \<le> r"
  shows "0 \<le> calculateMarketFactor c r"
proof -
  let ?v = "min (c / 20) 1 * (35 / 100) + min (r / 400) 1 * (65 / 100)"
  have "0 \<le> ?v" using assms by (simp add: min_def)
  then have "js_round 0 \<le> js_round (?v * 100)"
    by (intro js_round_mono) simp
  moreover have "js_round 0 = 0" by (simp add: js_round_def)
  ultimately show ?thesis
    by (simp add: calculateMarketFactor_def MAX_COMPETITORS_SIGNAL_def
        MAX_AVG_REVIEWS_SIGNAL_def COMPETITOR_COUNT_WEIGHT_def REVIEW_DENSITY_WEIGHT_def)
qed

lemma interpolate_mono:
  assumes "fst rng \<le> snd rng" and "f \<le> g"
  shows "interpolate rng f \<le> interpolate rng g"
proof -
  have "(snd rng - fst rng) * f \<le> (snd rng - fst rng) * g"
    using assms by (intro mult_left_mono) simp_all
  then have "js_round ((fst rng + (snd rng - fst rng) * f) * 100)
               \<le> js_round ((fst rng + (snd rng - fst rng) * g) * 100)"
    by (intro js_round_mono) simp
  then show ?thesis by (simp add: interpolate_def divide_right_mono)
qed

text \<open>A service named after an inherited property makes the provider throw.\<close>

lemma getKeywordData_inherited_key:
  "getKeywordData this [''Constructor''] cities state
     = Inl (TypeError ''Cannot read properties of undefined (reading 0)'')"
  by (simp add: getKeywordData_def service_entries_def findServiceEstimates_def
      toLowerCase_def lower_char_def SERVICE_ESTIMATES_def inherited_keys_def)


section \<open>City-qualified keywords\<close>








section \<open>Quota gate\<close>

text \<open>
  When \<open>getDb()\<close> throws, \<open>getUsageQuota\<close> rejects and the middleware's \<open>catch\<close> lets the
  request through; an error reported by the ledger read is a different path (C3 below).
\<close>

lemma usage_gate_open_without_db:
  "\<not> db_initialized w \<Longrightarrow> \<not> dev_bypass_auth w \<Longrightarrow> createUsageMiddleware w db (Some a) = Next None"
  by (simp add: createUsageMiddleware_def getUsageQuota_def)

text \<open>
  C3. For every account: when the gate performs its ledger read (the database client
  exists, no development bypass, an authenticated caller) and the read reports an error,
  \<open>getUsageQuota\<close> returns \<open>remaining = 0\<close> with \<open>used = limit\<close>, the middleware answers
  429, and both gated endpoints answer 429 without running their handler: the database is
  unchanged and the response does not depend on the providers or on the request body.
\<close>

theorem C3_quota_gate_fails_closed:
  assumes "db_initialized w" and "\<not> dev_bypass_auth w"
    and "usage_read_error w = Some message" and "auth = Some a"
  shows "getUsageQuota w db (accountId a)
           = Inr \<lparr>used = DEFAULT_MONTHLY_QUOTA, quota_limit = DEFAULT_MONTHLY_QUOTA,
                  remaining = 0, periodStart = Some (startOfMonth w), periodEnd = None\<rparr>
       \<and> createUsageMiddleware w db auth
           = Respond (429, QuotaBody ''Monthly analysis quota exceeded''
                             DEFAULT_MONTHLY_QUOTA DEFAULT_MONTHLY_QUOTA None)
       \<and> api_post_analyze deps w db auth body
           = ((429, QuotaBody ''Monthly analysis quota exceeded''
                      DEFAULT_MONTHLY_QUOTA DEFAULT_MONTHLY_QUOTA None), db)
       \<and> api_post_plan llm w db auth pbody
           = ((429, QuotaBody ''Monthly analysis quota exceeded''
                      DEFAULT_MONTHLY_QUOTA DEFAULT_MONTHLY_QUOTA None), db)"
proof -
  have q: "getUsageQuota w db (accountId a)
           = Inr \<lparr>used = DEFAULT_MONTHLY_QUOTA, quota_limit = DEFAULT_MONTHLY_QUOTA,
                  remaining = 0, periodStart = Some (startOfMonth w), periodEnd = None\<rparr>"
    using assms(1,3) by (simp add: getUsageQuota_def)
  have g: "createUsageMiddleware w db auth
           = Respond (429, QuotaBody ''Monthly analysis quota exceeded''
                             DEFAULT_MONTHLY_QUOTA DEFAULT_MONTHLY_QUOTA None)"
    using assms(2,4) q by (simp add: createUsageMiddleware_def)
  show ?thesis using q g by (simp add: api_post_analyze_def api_post_plan_def)
qed

theorem C3_quota_gate_fails_closed_witness:
  "db_initialized (sample_world\<lparr>usage_read_error := Some ''timeout''\<rparr>)
   \<and> \<not> dev_bypass_auth (sample_world\<lparr>usage_read_error := Some ''timeout''\<rparr>)
   \<and> usage_read_error (sample_world\<lparr>usage_read_error := Some ''timeout''\<rparr>) = Some ''timeout''
   \<and> getUsageQuota (sample_world\<lparr>usage_read_error := Some ''timeout''\<rparr>) sample_db ''acct-1''
       = Inr \<lparr>used = 10, quota_limit = 10, remaining = 0, periodStart = Some 90, periodEnd = None\<rparr>
   \<and> api_post_analyze (main_deps unconfigured sample_externals)
        (sample_world\<lparr>usage_read_error := Some ''timeout''\<rparr>) sample_db (Some sample_auth) sample_body
       = ((429, QuotaBody ''Monthly analysis quota exceeded'' 10 10 None), sample_db)
   \<and> api_post_plan sample_engine
        (sample_world\<lparr>usage_read_error := Some ''timeout''\<rparr>) sample_db (Some sample_auth) sample_plan_body
       = ((429, QuotaBody ''Monthly analysis quota exceeded'' 10 10 None), sample_db)"
proof -
  let ?w = "sample_world\<lparr>usage_read_error := Some ''timeout''\<rparr>"
  have h1: "db_initialized ?w" by (simp add: sample_world_def)
  have h2: "\<not> dev_bypass_auth ?w" by (simp add: sample_world_def)
  have h3: "usage_read_error ?w = Some ''timeout''" by simp
  have h4: "Some sample_auth = Some sample_auth" by simp
  have s: "startOfMonth ?w = 90" by (simp add: sample_world_def)
  have a: "accountId sample_auth = ''acct-1''" by (simp add: sample_auth_def)
  from C3_quota_gate_fails_closed[OF h1 h2 h3 h4, of sample_db
      "main_deps unconfigured sample_externals" sample_body sample_engine sample_plan_body]
  show ?thesis using h1 h2 unfolding s a DEFAULT_MONTHLY_QUOTA_def by simp
qed

section \<open>Account scoping of stored analyses\<close>

lemma find_analysis_none:
  assumes "\<forall>r\<in>set (growth_market_analyses db). \<not> (ar_id r = i \<and> ar_account_id r = acc)"
  shows "\<exists>err. find_analysis w db i acc = Inl err"
proof -
  have "filter (\<lambda>r. ar_id r = i \<and> ar_account_id r = acc) (growth_market_analyses db) = []"
    using assms by (simp add: filter_empty_conv)
  then show ?thesis
    by (simp add: find_analysis_def select_single_def split: option.splits)
qed

lemma find_analysis_owner:
  assumes "find_analysis w db i acc = Inr row"
  shows "row \<in> set (growth_market_analyses db) \<and> ar_id row = i \<and> ar_account_id row = acc"
proof -
  let ?rows = "filter (\<lambda>r. ar_id r = i \<and> ar_account_id r = acc) (growth_market_analyses db)"
  from assms have "?rows = [row]"
    by (auto simp: find_analysis_def select_single_def split: option.splits list.splits)
  then have "row \<in> set ?rows" by simp
  then show ?thesis by simp
qed

text \<open>
  C7. Take a plan-derivation call and a read-back call of account \<open>a\<close> for an analysis
  id, one against a database \<open>db1\<close> where the id does not exist and one against a database
  \<open>db2\<close> where every row with that id belongs to another account. Plan derivation fails
  with the same \<open>Market analysis not found\<close> error in both and leaves the database as it
  was; read-back answers the same 404 in both. Whenever read-back does answer with data,
  the data is that of a row of the caller's own account.
\<close>

theorem C7_not_found_same_for_missing_and_foreign:
  assumes "db_initialized w"
    and "\<forall>r\<in>set (growth_market_analyses db1). ar_id r \<noteq> analysisId request"
    and "\<forall>r\<in>set (growth_market_analyses db2).
           ar_id r = analysisId request \<longrightarrow> ar_account_id r \<noteq> accountId a"
  shows "generatePlan llm w db1 request (accountId a) (userId a)
           = (Inl (Error (''Market analysis not found: '' @ analysisId request)), db1)
       \<and> generatePlan llm w db2 request (accountId a) (userId a)
           = (Inl (Error (''Market analysis not found: '' @ analysisId request)), db2)
       \<and> get_analysis w db1 (Some a) (analysisId request) = (404, ErrorBody ''Analysis not found'' None)
       \<and> get_analysis w db2 (Some a) (analysisId request) = (404, ErrorBody ''Analysis not found'' None)
       \<and> (\<forall>db i row_id result created.
             get_analysis w db (Some a) i = (200, StoredAnalysisBody row_id result created)
             \<longrightarrow> (\<exists>r\<in>set (growth_market_analyses db).
                    ar_account_id r = accountId a \<and> ar_id r = i \<and> ar_result_data r = result))"
proof -
  from assms(2) obtain e1 where e1: "find_analysis w db1 (analysisId request) (accountId a) = Inl e1"
    using find_analysis_none[of db1 "analysisId request" "accountId a" w] by blast
  from assms(3) obtain e2 where e2: "find_analysis w db2 (analysisId request) (accountId a) = Inl e2"
    using find_analysis_none[of db2 "analysisId request" "accountId a" w] by blast
  have p1: "generatePlan llm w db1 request (accountId a) (userId a)
           = (Inl (Error (''Market analysis not found: '' @ analysisId request)), db1)"
    using assms(1) e1 by (simp add: generatePlan_def)
  have p2: "generatePlan llm w db2 request (accountId a) (userId a)
           = (Inl (Error (''Market analysis not found: '' @ analysisId request)), db2)"
    using assms(1) e2 by (simp add: generatePlan_def)
  have g1: "get_analysis w db1 (Some a) (analysisId request) = (404, ErrorBody ''Analysis not found'' None)"
    using assms(1) e1 by (simp add: get_analysis_def)
  have g2: "get_analysis w db2 (Some a) (analysisId request) = (404, ErrorBody ''Analysis not found'' None)"
    using assms(1) e2 by (simp add: get_analysis_def)
  have own: "\<exists>r\<in>set (growth_market_analyses db).
                    ar_account_id r = accountId a \<and> ar_id r = i \<and> ar_result_data r = result"
    if "get_analysis w db (Some a) i = (200, StoredAnalysisBody row_id result created)"
    for db i row_id result created
  proof -
    from that obtain row where row: "find_analysis w db i (accountId a) = Inr row"
      "ar_result_data row = result"
      by (auto simp: get_analysis_def split: if_splits sum.splits)
    from find_analysis_owner[OF row(1)] row(2) show ?thesis by blast
  qed
  show ?thesis using p1 p2 g1 g2 own by blast
qed

theorem C7_not_found_same_for_missing_and_foreign_witness:
  "db_initialized sample_world
   \<and> generatePlan sample_engine sample_world empty_db sample_plan_request ''acct-2'' ''user-2''
       = (Inl (Error ''Market analysis not found: a1''), empty_db)
   \<and> generatePlan sample_engine sample_world sample_db sample_plan_request ''acct-2'' ''user-2''
       = (Inl (Error ''Market analysis not found: a1''), sample_db)
   \<and> get_analysis sample_world empty_db (Some \<lparr>accountId = ''acct-2'', userId = ''user-2''\<rparr>) ''a1''
       = (404, ErrorBody ''Analysis not found'' None)
   \<and> get_analysis sample_world sample_db (Some \<lparr>accountId = ''acct-2'', userId = ''user-2''\<rparr>) ''a1''
       = (404, ErrorBody ''Analysis not found'' None)
   \<and> get_analysis sample_world sample_db (Some sample_auth) ''a1''
       = (200, StoredAnalysisBody ''a1'' sample_analysis 95)"
proof -
  let ?a = "\<lparr>accountId = ''acct-2'', userId = ''user-2''\<rparr>"
  have h1: "db_initialized sample_world" by (simp add: sample_world_def)
  have h2: "\<forall>r\<in>set (growth_market_analyses empty_db). ar_id r \<noteq> analysisId sample_plan_request"
    by (simp add: empty_db_def)
  have h3: "\<forall>r\<in>set (growth_market_analyses sample_db).
           ar_id r = analysisId sample_plan_request \<longrightarrow> ar_account_id r \<noteq> accountId ?a"
    by (simp add: sample_db_def)
  have own: "get_analysis sample_world sample_db (Some sample_auth) ''a1''
       = (200, StoredAnalysisBody ''a1'' sample_analysis 95)"
    by (simp add: get_analysis_def find_analysis_def select_single_def sample_world_def
        sample_db_def sample_auth_def)
  from C7_not_found_same_for_missing_and_foreign[OF h1 h2 h3, of sample_engine]
  show ?thesis using h1 own by (simp add: sample_plan_request_def)
qed

section \<open>Plan derivation\<close>

lemma map_outcome_campaign_cpc:
  "map_outcome campaign_of cs = Inr ps
   \<Longrightarrow> map estimatedCostPerClick ps = map (\<lambda>c. field c ''estimatedCostPerClick'') cs
     \<and> map c_service ps = map (\<lambda>c. field c ''service'') cs"
proof (induction cs arbitrary: ps)
  case Nil
  then show ?case by simp
next
  case (Cons c cs)
  then show ?case
    by (auto simp: campaign_of_def split: sum.splits if_splits)
qed

lemma plan_campaigns_cpc:
  assumes "plan_campaigns llmOutput = Inr ps"
  shows "\<exists>cs. field llmOutput ''campaigns'' = Some (JArr cs)
          \<and> map estimatedCostPerClick ps = map (\<lambda>c. field c ''estimatedCostPerClick'') cs
          \<and> map c_service ps = map (\<lambda>c. field c ''service'') cs"
  using assms map_outcome_campaign_cpc
  by (auto simp: plan_campaigns_def split: if_splits option.splits json.splits)

text \<open>
  C1 (as amended). For every plan \<open>generatePlan\<close> produces: the analysis was read from a
  row of the caller's account with the requested id, its stored service opportunities
  were handed to the reasoning engine, and the plan's campaigns carry, in order, exactly
  the \<open>estimatedCostPerClick\<close> (and \<open>service\<close>) values of the campaigns the engine
  returned. Nothing compares them with the stored \<open>avgCpc\<close>.
\<close>

theorem C1_plan_cpc_is_engine_value:
  assumes "generatePlan llm w db request acc user = (Inr plan, db')"
  shows "\<exists>row llmOutput cs.
           find_analysis w db (analysisId request) acc = Inr row
         \<and> ar_account_id row = acc \<and> ar_id row = analysisId request
         \<and> generateCampaignPlan llm (plan_input (ar_result_data row) request) = Inr llmOutput
         \<and> pin_serviceOpportunities (plan_input (ar_result_data row) request)
             = or_default (serviceOpportunities (ar_result_data row)) (JArr [])
         \<and> field llmOutput ''campaigns'' = Some (JArr cs)
         \<and> map estimatedCostPerClick (campaigns plan)
             = map (\<lambda>c. field c ''estimatedCostPerClick'') cs
         \<and> map c_service (campaigns plan) = map (\<lambda>c. field c ''service'') cs"
proof -
  from assms obtain row where row: "find_analysis w db (analysisId request) acc = Inr row"
    by (auto simp: generatePlan_def split: if_splits sum.splits)
  from assms row obtain llmOutput where
    out: "generateCampaignPlan llm (plan_input (ar_result_data row) request) = Inr llmOutput"
    by (auto simp: generatePlan_def Let_def split: if_splits sum.splits)
  from assms row out obtain ps where ps: "plan_campaigns llmOutput = Inr ps"
    by (auto simp: generatePlan_def Let_def split: if_splits sum.splits)
  from assms row out ps have "campaigns plan = ps"
    by (auto simp: generatePlan_def Let_def split: if_splits sum.splits prod.splits)
  with plan_campaigns_cpc[OF ps] obtain cs where
    cs: "field llmOutput ''campaigns'' = Some (JArr cs)"
      "map estimatedCostPerClick (campaigns plan) = map (\<lambda>c. field c ''estimatedCostPerClick'') cs"
      "map c_service (campaigns plan) = map (\<lambda>c. field c ''service'') cs"
    by blast
  have own: "ar_account_id row = acc \<and> ar_id row = analysisId request"
  proof -
    let ?rows = "filter (\<lambda>r. ar_id r = analysisId request \<and> ar_account_id r = acc)
                   (growth_market_analyses db)"
    from row have "?rows = [row]"
      by (auto simp: find_analysis_def select_single_def split: option.splits list.splits)
    then have "row \<in> set ?rows" by simp
    then show ?thesis by simp
  qed
  have "pin_serviceOpportunities (plan_input (ar_result_data row) request)
             = or_default (serviceOpportunities (ar_result_data row)) (JArr [])"
    by (simp add: plan_input_def)
  with row out cs own show ?thesis by blast
qed

lemma sample_plan_run:
  "generatePlan sample_engine sample_world sample_db sample_plan_request ''acct-1'' ''user-1''
     = (Inr sample_plan,
        sample_db\<lparr>growth_campaign_plans :=
                    [\<lparr>pr_id = ''a2'', pr_account_id = ''acct-1'', pr_user_id = ''user-1'',
                      pr_analysis_id = ''a1'', pr_plan_data = sample_plan\<lparr>plan_id := None\<rparr>,
                      pr_created_at = 100\<rparr>],
                   growth_usage_log :=
                    [\<lparr>ur_account_id = ''acct-1'', ur_user_id = ''user-1'',
                      ur_event_type = ''plan_generation'',
                      ur_metadata = JObj [(''analysisId'', JStr ''a1''), (''campaignCount'', JNum 1),
                                          (''elapsedMs'', JNum 1500), (''planId'', JStr ''a2'')],
                      ur_created_at = 100\<rparr>]\<rparr>)"
  by (simp add: generatePlan_def find_analysis_def select_single_def sample_db_def
      sample_world_def sample_plan_request_def sample_engine_def generateCampaignPlan_def
      parse_content_def plan_campaigns_def sample_plan_output_def field_def campaign_of_def
      or_default_def saveCampaignPlan_def returned_id_def logUsageEvent_def plan_metadata_def
      id_json_def sample_plan_def plan_input_def Let_def)


theorem C1_plan_cpc_is_engine_value_witness:
  "fst (generatePlan sample_engine sample_world sample_db sample_plan_request ''acct-1'' ''user-1'')
     = Inr sample_plan
   \<and> (\<exists>row llmOutput cs.
           find_analysis sample_world sample_db ''a1'' ''acct-1'' = Inr row
         \<and> ar_account_id row = ''acct-1'' \<and> ar_id row = ''a1''
         \<and> generateCampaignPlan sample_engine (plan_input (ar_result_data row) sample_plan_request)
             = Inr llmOutput
         \<and> pin_serviceOpportunities (plan_input (ar_result_data row) sample_plan_request)
             = or_default (serviceOpportunities (ar_result_data row)) (JArr [])
         \<and> field llmOutput ''campaigns'' = Some (JArr cs)
         \<and> [Some (JNum 5)] = map (\<lambda>c. field c ''estimatedCostPerClick'') cs
         \<and> [Some (JStr ''interior painting'')] = map (\<lambda>c. field c ''service'') cs)"
proof -
  note run = sample_plan_run
  from C1_plan_cpc_is_engine_value[OF run]
  show ?thesis using run by (simp add: sample_plan_request_def sample_plan_def)
qed

text \<open>
  The contract itself fails: the stored analysis records \<open>avgCpc = 10\<close> for
  \<open>interior painting\<close>, the engine answers 5, and the plan is returned with 5.
\<close>

theorem C1_counterexample:
  "fst (generatePlan sample_engine sample_world sample_db sample_plan_request ''acct-1'' ''user-1'')
     = Inr sample_plan
   \<and> map ar_result_data (growth_market_analyses sample_db) = [sample_analysis]
   \<and> \<not> cpc_consistent sample_analysis sample_plan"
proof -
  have "\<not> cpc_consistent sample_analysis sample_plan"
    by (simp add: cpc_consistent_def sample_analysis_def sample_plan_def
        service_opportunities_def field_def)
  then show ?thesis using sample_plan_run by (simp add: sample_db_def)
qed

section \<open>The analysis pipeline after synthesis\<close>

lemma analyze_after_synthesis:
  assumes "db_initialized w"
    and "synthesizeMarketAnalysis (dep_llm deps) (gather deps w request acc) = Inr j"
    and "j \<noteq> JNull"
  shows "analyze deps w db request acc user =
     (let analysis = assemble w (gather deps w request acc) j;
          aid = (case analysis_write_error w of
                   Some m \<Rightarrow> None | None \<Rightarrow> returned_id (generated_id w));
          db1 = (case analysis_write_error w of
                   Some m \<Rightarrow> db
                 | None \<Rightarrow> db\<lparr>growth_market_analyses := growth_market_analyses db @
                     [\<lparr>ar_id = generated_id w, ar_account_id = acc, ar_user_id = user,
                       ar_request_data = request, ar_result_data = analysis,
                       ar_created_at = now w\<rparr>]\<rparr>);
          db2 = (case usage_write_error w of
                   Some m \<Rightarrow> db1
                 | None \<Rightarrow> db1\<lparr>growth_usage_log := growth_usage_log db1 @
                     [\<lparr>ur_account_id = acc, ur_user_id = user, ur_event_type = ''market_analysis'',
                       ur_metadata = analysis_metadata w request aid, ur_created_at = now w\<rparr>]\<rparr>)
      in (Inr (analysis\<lparr>ma_id := aid\<rparr>), db2))"
  using assms
  by (simp add: analyze_def saveMarketAnalysis_def logUsageEvent_def Let_def
      split: option.splits)


lemma gather_ignores_write_errors:
  "gather deps (w\<lparr>usage_write_error := x\<rparr>) request acc = gather deps w request acc"
  by (simp add: gather_def getCrmSnapshot_def split: option.splits)

lemma assemble_ignores_write_errors:
  "assemble (w\<lparr>usage_write_error := x\<rparr>) input j = assemble w input j"
  by (simp add: assemble_def)

lemma assemble_no_id: "ma_id (assemble w input j) = None"
  by (simp add: assemble_def)

lemma sample_gather:
  "gather (main_deps unconfigured sample_externals) sample_world sample_request ''acct-1''
     = \<lparr>in_services = [''interior painting''], in_zipCode = ''92101'', in_keywords = [],
        in_competitors = [], in_serpResults = [], in_crmData = None, in_websiteUrl = None,
        in_websiteContent = None\<rparr>"
  by (simp add: gather_def main_deps_def unconfigured_def sample_externals_def sample_world_def
      sample_request_def planner_getKeywordData_def planner_service_entries_def
      places_getCompetitors_def gatherSerpResults_def getCrmSnapshot_def catch_with_def
      present_def Let_def)

lemma sample_synthesis:
  "synthesizeMarketAnalysis (dep_llm (main_deps unconfigured sample_externals)) input
     = Inr sample_output"
  by (simp add: synthesizeMarketAnalysis_def main_deps_def sample_externals_def
      sample_engine_def parse_content_def)

lemma sample_assemble:
  "assemble sample_world
     \<lparr>in_services = [''interior painting''], in_zipCode = ''92101'', in_keywords = [],
      in_competitors = [], in_serpResults = [], in_crmData = None, in_websiteUrl = None,
      in_websiteContent = None\<rparr> sample_output = sample_analysis"
  by (simp add: assemble_def sample_output_def sample_analysis_def field_def
      getDataSourcesUsed_def sample_world_def)

section \<open>Persistence failures\<close>

text \<open>
  C5 (as amended). Once synthesis has returned a value, a failed primary write does not
  propagate: \<open>saveMarketAnalysis\<close> returns no identifier, \<open>analyze\<close> returns the analysis
  with a null identifier and no row is stored. A failed usage-ledger write is swallowed:
  \<open>analyze\<close> returns the same result as when the write succeeds, and the ledger is left
  as it was.
\<close>

theorem C5_write_failures_do_not_propagate:
  assumes "db_initialized w"
    and "synthesizeMarketAnalysis (dep_llm deps) (gather deps w request acc) = Inr j"
    and "j \<noteq> JNull"
  shows "(analysis_write_error w \<noteq> None \<longrightarrow>
            (\<exists>db'. analyze deps w db request acc user
                     = (Inr (assemble w (gather deps w request acc) j), db')
                  \<and> growth_market_analyses db' = growth_market_analyses db))
       \<and> (\<exists>a. fst (analyze deps (w\<lparr>usage_write_error := Some m\<rparr>) db request acc user) = Inr a)
       \<and> fst (analyze deps (w\<lparr>usage_write_error := Some m\<rparr>) db request acc user)
           = fst (analyze deps (w\<lparr>usage_write_error := None\<rparr>) db request acc user)
       \<and> growth_usage_log (snd (analyze deps (w\<lparr>usage_write_error := Some m\<rparr>) db request acc user))
           = growth_usage_log db"
proof -
  have noid: "(assemble w (gather deps w request acc) j)\<lparr>ma_id := None\<rparr>
                = assemble w (gather deps w request acc) j"
    by (simp add: assemble_def)
  have a: "analysis_write_error w \<noteq> None \<longrightarrow>
            (\<exists>db'. analyze deps w db request acc user
                     = (Inr (assemble w (gather deps w request acc) j), db')
                  \<and> growth_market_analyses db' = growth_market_analyses db)"
    using analyze_after_synthesis[OF assms, of db user] noid
    by (auto simp: Let_def split: option.splits)
  have pre: "db_initialized (w\<lparr>usage_write_error := x\<rparr>)"
    "synthesizeMarketAnalysis (dep_llm deps) (gather deps (w\<lparr>usage_write_error := x\<rparr>) request acc) = Inr j"
    for x
    using assms(1,2) by (simp_all add: gather_ignores_write_errors)
  note some = analyze_after_synthesis[OF pre[of "Some m"] assms(3), of db user]
  note none = analyze_after_synthesis[OF pre[of None] assms(3), of db user]
  have b: "fst (analyze deps (w\<lparr>usage_write_error := Some m\<rparr>) db request acc user)
           = fst (analyze deps (w\<lparr>usage_write_error := None\<rparr>) db request acc user)"
    unfolding some none
    by (simp add: Let_def gather_ignores_write_errors assemble_ignores_write_errors
        split: option.splits)
  have c: "\<exists>a. fst (analyze deps (w\<lparr>usage_write_error := Some m\<rparr>) db request acc user) = Inr a"
    unfolding some by (simp add: Let_def)
  have d: "growth_usage_log (snd (analyze deps (w\<lparr>usage_write_error := Some m\<rparr>) db request acc user))
           = growth_usage_log db"
    unfolding some by (simp add: Let_def split: option.splits)
  show ?thesis using a b c d by blast
qed

lemma sample_failed_save_run:
  "analyze (main_deps unconfigured sample_externals)
     (sample_world\<lparr>analysis_write_error := Some ''insert failed''\<rparr>) empty_db sample_request
     ''acct-1'' ''user-1''
   = (Inr sample_analysis,
      empty_db\<lparr>growth_usage_log :=
        [\<lparr>ur_account_id = ''acct-1'', ur_user_id = ''user-1'', ur_event_type = ''market_analysis'',
          ur_metadata = JObj [(''zipCode'', JStr ''92101''),
                              (''services'', JArr [JStr ''interior painting'']),
                              (''elapsedMs'', JNum 1500), (''analysisId'', JNull)],
          ur_created_at = 100\<rparr>]\<rparr>)"
proof -
  let ?w = "sample_world\<lparr>analysis_write_error := Some ''insert failed''\<rparr>"
  let ?deps = "main_deps unconfigured sample_externals"
  have g: "gather ?deps ?w sample_request ''acct-1''
             = gather ?deps sample_world sample_request ''acct-1''"
    by (simp add: gather_def getCrmSnapshot_def split: option.splits)
  have asm: "assemble ?w (gather ?deps sample_world sample_request ''acct-1'') sample_output
               = sample_analysis"
    using sample_assemble by (simp add: sample_gather assemble_def)
  have i: "db_initialized ?w" by (simp add: sample_world_def)
  have s: "synthesizeMarketAnalysis (dep_llm ?deps) (gather ?deps ?w sample_request ''acct-1'')
             = Inr sample_output"
    by (rule sample_synthesis)
  have n: "sample_output \<noteq> JNull" by (simp add: sample_output_def)
  have noid: "sample_analysis\<lparr>ma_id := None\<rparr> = sample_analysis"
    by (simp add: sample_analysis_def)
  show ?thesis
    unfolding analyze_after_synthesis[OF i s n] g asm
    by (simp add: Let_def noid analysis_metadata_def id_json_def sample_request_def
        sample_world_def empty_db_def)
qed

text \<open>
  With the insert of the analysis failing, \<open>analyze\<close> returns the analysis (identifier
  null) and the endpoint answers 200.
\<close>

theorem C5_counterexample:
  "analysis_write_error (sample_world\<lparr>analysis_write_error := Some ''insert failed''\<rparr>)
     = Some ''insert failed''
   \<and> fst (analyze (main_deps unconfigured sample_externals)
            (sample_world\<lparr>analysis_write_error := Some ''insert failed''\<rparr>) empty_db
            sample_request ''acct-1'' ''user-1'')
       = Inr sample_analysis
   \<and> ma_id sample_analysis = None
   \<and> fst (api_post_analyze (main_deps unconfigured sample_externals)
            (sample_world\<lparr>analysis_write_error := Some ''insert failed''\<rparr>) empty_db
            (Some sample_auth) sample_body)
       = (200, AnalysisBody sample_analysis)"
proof -
  let ?w = "sample_world\<lparr>analysis_write_error := Some ''insert failed''\<rparr>"
  have gate: "createUsageMiddleware ?w empty_db (Some sample_auth)
                = Next (Some \<lparr>used = 0, quota_limit = 10, remaining = 10,
                               periodStart = Some 90, periodEnd = Some 120\<rparr>)"
    by (simp add: createUsageMiddleware_def getUsageQuota_def sample_world_def empty_db_def
        usage_events_since_def DEFAULT_MONTHLY_QUOTA_def sample_auth_def Let_def)
  have req: "\<lparr>zipCode = ''92101'', services = [''interior painting''], targetCities = Some [],
               radiusMiles = Some 25, websiteUrl = None\<rparr> = sample_request"
    by (simp add: sample_request_def)
  have "fst (api_post_analyze (main_deps unconfigured sample_externals) ?w empty_db
              (Some sample_auth) sample_body) = (200, AnalysisBody sample_analysis)"
    unfolding api_post_analyze_def gate
    by (simp add: post_analyze_def sample_body_def present_def req sample_auth_def
        sample_failed_save_run)
  then show ?thesis using sample_failed_save_run by (simp add: sample_analysis_def)
qed

theorem C5_write_failures_do_not_propagate_witness:
  "db_initialized (sample_world\<lparr>analysis_write_error := Some ''insert failed''\<rparr>)
   \<and> (\<exists>db'. analyze (main_deps unconfigured sample_externals)
              (sample_world\<lparr>analysis_write_error := Some ''insert failed''\<rparr>) empty_db
              sample_request ''acct-1'' ''user-1'' = (Inr sample_analysis, db')
            \<and> growth_market_analyses db' = [])
   \<and> fst (analyze (main_deps unconfigured sample_externals)
            (sample_world\<lparr>analysis_write_error := Some ''insert failed'',
                           usage_write_error := Some ''log failed''\<rparr>) empty_db
            sample_request ''acct-1'' ''user-1'')
       = fst (analyze (main_deps unconfigured sample_externals)
            (sample_world\<lparr>analysis_write_error := Some ''insert failed'',
                           usage_write_error := None\<rparr>) empty_db
            sample_request ''acct-1'' ''user-1'')
   \<and> growth_usage_log (snd (analyze (main_deps unconfigured sample_externals)
            (sample_world\<lparr>analysis_write_error := Some ''insert failed'',
                           usage_write_error := Some ''log failed''\<rparr>) empty_db
            sample_request ''acct-1'' ''user-1'')) = []"
proof -
  let ?w = "sample_world\<lparr>analysis_write_error := Some ''insert failed''\<rparr>"
  let ?deps = "main_deps unconfigured sample_externals"
  have g: "gather ?deps ?w sample_request ''acct-1''
             = gather ?deps sample_world sample_request ''acct-1''"
    by (simp add: gather_def getCrmSnapshot_def split: option.splits)
  have asm: "assemble ?w (gather ?deps ?w sample_request ''acct-1'') sample_output
               = sample_analysis"
    unfolding g using sample_assemble by (simp add: sample_gather assemble_def)
  have i: "db_initialized ?w" by (simp add: sample_world_def)
  have s: "synthesizeMarketAnalysis (dep_llm ?deps) (gather ?deps ?w sample_request ''acct-1'')
             = Inr sample_output"
    by (rule sample_synthesis)
  have n: "sample_output \<noteq> JNull" by (simp add: sample_output_def)
  have e: "analysis_write_error ?w \<noteq> None" by simp
  from C5_write_failures_do_not_propagate[OF i s n, of empty_db "''user-1''" "''log failed''"]
  show ?thesis using i e unfolding asm by (simp add: empty_db_def)
qed

text \<open>
  C10. When the primary write fails (and the ledger works), \<open>analyze\<close> returns the
  analysis with a null identifier, stores no analysis row, appends one
  \<open>market_analysis\<close> event for the account, so the account's used quota of the current
  month grows by one, and every later read-back finds exactly what it found before.
\<close>

theorem C10_failed_save_still_consumes_quota:
  assumes "db_initialized w"
    and "analysis_write_error w = Some m"
    and "usage_write_error w = None" and "usage_read_error w = None"
    and "startOfMonth w \<le> now w"
    and "synthesizeMarketAnalysis (dep_llm deps) (gather deps w request acc) = Inr j"
    and "j \<noteq> JNull"
  shows "\<exists>a db'. analyze deps w db request acc user = (Inr a, db')
         \<and> ma_id a = None
         \<and> growth_market_analyses db' = growth_market_analyses db
         \<and> growth_usage_log db' = growth_usage_log db @
              [\<lparr>ur_account_id = acc, ur_user_id = user, ur_event_type = ''market_analysis'',
                ur_metadata = analysis_metadata w request None, ur_created_at = now w\<rparr>]
         \<and> (\<exists>q q'. getUsageQuota w db acc = Inr q \<and> getUsageQuota w db' acc = Inr q'
                   \<and> used q' = used q + 1)
         \<and> (\<forall>i acc'. find_analysis w db' i acc' = find_analysis w db i acc')"
proof -
  let ?event = "\<lparr>ur_account_id = acc, ur_user_id = user, ur_event_type = ''market_analysis'',
                ur_metadata = analysis_metadata w request None, ur_created_at = now w\<rparr>"
  let ?db' = "db\<lparr>growth_usage_log := growth_usage_log db @ [?event]\<rparr>"
  let ?a = "assemble w (gather deps w request acc) j"
  have run: "analyze deps w db request acc user = (Inr (?a\<lparr>ma_id := None\<rparr>), ?db')"
    using analyze_after_synthesis[OF assms(1,6,7), of db user] assms(2,3)
    by (simp add: Let_def)
  have quota: "\<exists>q q'. getUsageQuota w db acc = Inr q \<and> getUsageQuota w ?db' acc = Inr q'
                   \<and> used q' = used q + 1"
    using assms(1,4,5) by (simp add: getUsageQuota_def usage_events_since_def Let_def)
  have same: "\<forall>i acc'. find_analysis w ?db' i acc' = find_analysis w db i acc'"
    by (simp add: find_analysis_def)
  show ?thesis using run quota same by simp
qed

theorem C10_failed_save_still_consumes_quota_witness:
  "analysis_write_error (sample_world\<lparr>analysis_write_error := Some ''insert failed''\<rparr>)
     = Some ''insert failed''
   \<and> (\<exists>a db'. analyze (main_deps unconfigured sample_externals)
          (sample_world\<lparr>analysis_write_error := Some ''insert failed''\<rparr>) empty_db
          sample_request ''acct-1'' ''user-1'' = (Inr a, db')
        \<and> ma_id a = None
        \<and> growth_market_analyses db' = []
        \<and> map ur_event_type (growth_usage_log db') = [''market_analysis'']
        \<and> (\<exists>q q'. getUsageQuota (sample_world\<lparr>analysis_write_error := Some ''insert failed''\<rparr>)
                      empty_db ''acct-1'' = Inr q
                  \<and> getUsageQuota (sample_world\<lparr>analysis_write_error := Some ''insert failed''\<rparr>)
                      db' ''acct-1'' = Inr q'
                  \<and> used q' = used q + 1))"
proof -
  let ?w = "sample_world\<lparr>analysis_write_error := Some ''insert failed''\<rparr>"
  let ?deps = "main_deps unconfigured sample_externals"
  have h1: "db_initialized ?w" by (simp add: sample_world_def)
  have h2: "analysis_write_error ?w = Some ''insert failed''" by simp
  have h3: "usage_write_error ?w = None" by (simp add: sample_world_def)
  have h4: "usage_read_error ?w = None" by (simp add: sample_world_def)
  have h5: "startOfMonth ?w \<le> now ?w" by (simp add: sample_world_def)
  have h6: "synthesizeMarketAnalysis (dep_llm ?deps) (gather ?deps ?w sample_request ''acct-1'')
             = Inr sample_output"
    by (rule sample_synthesis)
  have h7: "sample_output \<noteq> JNull" by (simp add: sample_output_def)
  from C10_failed_save_still_consumes_quota[OF h1 h2 h3 h4 h5 h6 h7, of empty_db "''user-1''"]
  obtain a db' where r: "analyze ?deps ?w empty_db sample_request ''acct-1'' ''user-1'' = (Inr a, db')"
    "ma_id a = None" "growth_market_analyses db' = growth_market_analyses empty_db"
    "growth_usage_log db' = growth_usage_log empty_db @
              [\<lparr>ur_account_id = ''acct-1'', ur_user_id = ''user-1'', ur_event_type = ''market_analysis'',
                ur_metadata = analysis_metadata ?w sample_request None, ur_created_at = now ?w\<rparr>]"
    "\<exists>q q'. getUsageQuota ?w empty_db ''acct-1'' = Inr q \<and> getUsageQuota ?w db' ''acct-1'' = Inr q'
                   \<and> used q' = used q + 1"
    by blast
  from r(3,4) have f: "growth_market_analyses db' = []"
    "map ur_event_type (growth_usage_log db') = [''market_analysis'']"
    by (simp_all add: empty_db_def)
  show ?thesis
  proof (intro conjI)
    show "analysis_write_error ?w = Some ''insert failed''" by (rule h2)
    show "\<exists>a db'. analyze ?deps ?w empty_db sample_request ''acct-1'' ''user-1'' = (Inr a, db')
        \<and> ma_id a = None
        \<and> growth_market_analyses db' = []
        \<and> map ur_event_type (growth_usage_log db') = [''market_analysis'']
        \<and> (\<exists>q q'. getUsageQuota ?w empty_db ''acct-1'' = Inr q
                  \<and> getUsageQuota ?w db' ''acct-1'' = Inr q'
                  \<and> used q' = used q + 1)"
      using r(1,2,5) f by (intro exI[of _ a] exI[of _ db'] conjI)
  qed
qed

section \<open>Degraded data branches\<close>




section \<open>Synthesis adapter\<close>








section \<open>Scenario A: no keyword source, no competitors\<close>

lemma planner_no_ideas:
  assumes "\<forall>svc\<in>set svcs. no_ideas (ideas svc)"
  shows "planner_getKeywordData ideas svcs cities state = Inr []"
proof -
  have "planner_service_entries ideas cities svc = []" if "svc \<in> set svcs" for svc
    using assms that
    by (auto simp: planner_service_entries_def no_ideas_def List.map_filter_simps
        split: sum.splits option.splits)
  then show ?thesis by (simp add: planner_getKeywordData_def)
qed

text \<open>
  Under the earlier wiring the unconfigured pipeline does use the interpolator, but at
  the provider's default market factor 1/2, whatever the competitors found.
\<close>

lemma earlier_wiring_uses_default_factor:
  assumes "\<not> isConfigured config"
  shows "dep_getKeywordData (earlier_main_deps config ext) svcs cities state
           = getKeywordData \<lparr>marketFactor = 1 / 2\<rparr> svcs cities state"
  using assms
  by (simp add: earlier_main_deps_def earlier_getKeywordData_def
      new_EstimateMarketDataProvider_def)

text \<open>
  C2 (as amended). With the wiring of \<open>main\<close>: for a request with an empty target-city
  list, a Keyword Planner that yields no ideas for any of the services (what the
  unconfigured provider does) and zero competitors found, the keyword list handed to
  synthesis is empty (the adapter's \<open>hasKeywordData\<close> flag is false; no interpolated
  figures are produced), and the result's \<open>dataSourcesUsed\<close> omits the keyword-provider
  name and the competitor-provider name and includes the reasoning-engine name.
\<close>

theorem C2_no_keyword_source_means_no_keyword_figures:
  assumes "db_initialized w"
    and "targetCities request = Some []"
    and "\<forall>svc\<in>set (services request). no_ideas (ideas_api ext svc)"
    and "dep_getCompetitors (main_deps config ext) (zipCode request) (radiusMiles request) = Inr []"
    and "chat_analysis (engine ext) (gather (main_deps config ext) w request acc) = Inr (Json j)"
    and "j \<noteq> JNull"
  shows "in_keywords (gather (main_deps config ext) w request acc) = []
       \<and> \<not> hasKeywordData (gather (main_deps config ext) w request acc)
       \<and> in_competitors (gather (main_deps config ext) w request acc) = []
       \<and> (\<exists>a db'. analyze (main_deps config ext) w db request acc user = (Inr a, db')
              \<and> ''google_ads_keyword_planner'' \<notin> set (dataSourcesUsed a)
              \<and> ''google_places'' \<notin> set (dataSourcesUsed a)
              \<and> ''openai_llm'' \<in> set (dataSourcesUsed a))"
proof -
  let ?deps = "main_deps config ext"
  have kw: "dep_getKeywordData ?deps (services request) [] [] = Inr []"
    using planner_no_ideas[OF assms(3)] by (simp add: main_deps_def)
  have k: "in_keywords (gather ?deps w request acc) = []"
    using kw assms(2) by (simp add: gather_def Let_def catch_with_def)
  have c: "in_competitors (gather ?deps w request acc) = []"
    using assms(4) by (simp add: gather_def Let_def catch_with_def)
  have h: "\<not> hasKeywordData (gather ?deps w request acc)"
    using k by (simp add: hasKeywordData_def)
  have syn: "synthesizeMarketAnalysis (dep_llm ?deps) (gather ?deps w request acc) = Inr j"
    using assms(5) by (simp add: synthesizeMarketAnalysis_def parse_content_def main_deps_def)
  have "\<exists>a db'. analyze ?deps w db request acc user = (Inr a, db')
              \<and> ''google_ads_keyword_planner'' \<notin> set (dataSourcesUsed a)
              \<and> ''google_places'' \<notin> set (dataSourcesUsed a)
              \<and> ''openai_llm'' \<in> set (dataSourcesUsed a)"
    unfolding analyze_after_synthesis[OF assms(1) syn assms(6)]
    by (simp add: Let_def assemble_def getDataSourcesUsed_def k c)
  with k c h show ?thesis by simp
qed

theorem C2_no_keyword_source_means_no_keyword_figures_witness:
  "\<not> isConfigured unconfigured
   \<and> targetCities sample_request = Some []
   \<and> in_keywords (gather (main_deps unconfigured sample_externals) sample_world sample_request
                     ''acct-1'') = []
   \<and> \<not> hasKeywordData (gather (main_deps unconfigured sample_externals) sample_world
                          sample_request ''acct-1'')
   \<and> (\<exists>a db'. analyze (main_deps unconfigured sample_externals) sample_world empty_db
                  sample_request ''acct-1'' ''user-1'' = (Inr a, db')
              \<and> ''google_ads_keyword_planner'' \<notin> set (dataSourcesUsed a)
              \<and> ''google_places'' \<notin> set (dataSourcesUsed a)
              \<and> ''openai_llm'' \<in> set (dataSourcesUsed a))"
proof -
  let ?deps = "main_deps unconfigured sample_externals"
  have h1: "db_initialized sample_world" by (simp add: sample_world_def)
  have h2: "targetCities sample_request = Some []" by (simp add: sample_request_def)
  have h3: "\<forall>svc\<in>set (services sample_request). no_ideas (ideas_api sample_externals svc)"
    by (simp add: no_ideas_def sample_externals_def)
  have h4: "dep_getCompetitors ?deps (zipCode sample_request) (radiusMiles sample_request) = Inr []"
    by (simp add: main_deps_def places_getCompetitors_def unconfigured_def sample_externals_def
        sample_request_def)
  have h5: "chat_analysis (engine sample_externals)
              (gather ?deps sample_world sample_request ''acct-1'') = Inr (Json sample_output)"
    by (simp add: sample_externals_def sample_engine_def)
  have h6: "sample_output \<noteq> JNull" by (simp add: sample_output_def)
  have u: "\<not> isConfigured unconfigured" by (simp add: isConfigured_def unconfigured_def)
  from C2_no_keyword_source_means_no_keyword_figures[OF h1 h2 h3 h4 h5 h6, of empty_db "''user-1''"]
  show ?thesis using u h2 by simp
qed

text \<open>
  The keyword figures are not those of the interpolator: for the request of scenario A
  the pipeline's keyword list is empty, while the interpolator at market factor 0 yields
  six keywords for \<open>interior painting\<close>.
\<close>

theorem C2_counterexample:
  "\<not> isConfigured unconfigured
   \<and> targetCities sample_request = Some []
   \<and> in_competitors (gather (main_deps unconfigured sample_externals) sample_world sample_request
                        ''acct-1'') = []
   \<and> in_keywords (gather (main_deps unconfigured sample_externals) sample_world sample_request
                     ''acct-1'') = []
   \<and> calculateMarketFactor 0 0 = 0
   \<and> getKeywordData (setMarketFactor new_EstimateMarketDataProvider (calculateMarketFactor 0 0))
        (services sample_request) [] [] = Inr interior_at_zero
   \<and> interior_at_zero \<noteq> []"
proof -
  have f: "calculateMarketFactor 0 0 = 0"
    by (simp add: calculateMarketFactor_def js_round_def)
  have e: "getKeywordData (setMarketFactor new_EstimateMarketDataProvider 0)
        [''interior painting''] [] [] = Inr interior_at_zero"
    by code_simp
  have u: "\<not> isConfigured unconfigured" by (simp add: isConfigured_def unconfigured_def)
  have t: "targetCities sample_request = Some []" "services sample_request = [''interior painting'']"
    by (simp_all add: sample_request_def)
  have n: "interior_at_zero \<noteq> []" by (simp add: interior_at_zero_def)
  show ?thesis
    unfolding f t using e u n by (simp add: sample_gather)
qed

end
